theory Spec2Isabelle
  imports Complex_Main
begin

section \<open>Go values and the string helpers of the standard library\<close>

text \<open>
  A decoded JSON document is a Go \<open>interface{}\<close> value: \<open>nil\<close>, \<open>bool\<close>,
  \<open>float64\<close>, \<open>string\<close>, \<open>[]interface{}\<close> or \<open>map[string]interface{}\<close>.
  The source also switches on the dynamic type \<open>[]string\<close>, so that type has a
  constructor of its own. A finite \<open>float64\<close> is a rational number.
\<close>

datatype goval =
    VNil
  | VBool bool
  | VFloat64 rat
  | VString string
  | VSlice "goval list"
  | VStrings "string list"
  | VMap "(string \<times> goval) list"

text \<open>\<open>jwt.MapClaims\<close> is \<open>map[string]interface{}\<close>.\<close>

type_synonym MapClaims = "string \<rightharpoonup> goval"

text \<open>
  \<open>int64(f)\<close> for a \<open>float64\<close> truncates towards zero. When the truncated value
  does not fit 64 bits, Go leaves the result to the implementation: it is the
  parameter \<open>oor\<close>.
\<close>

definition int64_of_float64 :: "int \<Rightarrow> rat \<Rightarrow> int" where
  "int64_of_float64 oor f =
     (let t = (if 0 \<le> f then \<lfloor>f\<rfloor> else \<lceil>f\<rceil>)
      in if - (2 ^ 63) \<le> t \<and> t < 2 ^ 63 then t else oor)"

text \<open>\<open>os.Getenv\<close>: the value of the variable, empty when it is unset.\<close>

type_synonym environ = "string \<rightharpoonup> string"

definition Getenv :: "environ \<Rightarrow> string \<Rightarrow> string" where
  "Getenv env k = (case env k of None \<Rightarrow> [] | Some v \<Rightarrow> v)"

text \<open>\<open>strings.Split(s, sep)\<close> for a separator of one byte.\<close>

fun Split :: "char \<Rightarrow> string \<Rightarrow> string list" where
  "Split c [] = [[]]"
| "Split c (x # xs) =
     (if x = c then [] # Split c xs
      else (case Split c xs of [] \<Rightarrow> [[x]] | y # ys \<Rightarrow> (x # y) # ys))"

text \<open>
  \<open>strings.TrimSpace\<close> on ASCII text: the white space of \<open>unicode.IsSpace\<close> below
  \<open>0x80\<close> is tab, line feed, vertical tab, form feed, carriage return and space.
  Bytes from \<open>0x80\<close> on are kept (Go also trims the Unicode spaces encoded in
  UTF-8).
\<close>

definition isSpaceASCII :: "char \<Rightarrow> bool" where
  "isSpaceASCII c \<longleftrightarrow> c \<in> set [CHR 0x09, CHR 0x0A, CHR 0x0B, CHR 0x0C, CHR 0x0D, CHR '' '']"

definition TrimSpace :: "string \<Rightarrow> string" where
  "TrimSpace s = rev (dropWhile isSpaceASCII (rev (dropWhile isSpaceASCII s)))"

text \<open>\<open>strings.TrimSuffix\<close>.\<close>

definition TrimSuffix :: "string \<Rightarrow> string \<Rightarrow> string" where
  "TrimSuffix s suffix =
     (if length suffix \<le> length s \<and> drop (length s - length suffix) s = suffix
      then take (length s - length suffix) s else s)"

text \<open>
  \<open>strings.ToLower\<close> on ASCII text: the letters \<open>A\<close> to \<open>Z\<close> move to \<open>a\<close> to
  \<open>z\<close>, every other byte is kept.
\<close>

definition lowerASCII :: "char \<Rightarrow> char" where
  "lowerASCII c =
     (case map_of (zip ''ABCDEFGHIJKLMNOPQRSTUVWXYZ'' ''abcdefghijklmnopqrstuvwxyz'') c of
        None \<Rightarrow> c
      | Some l \<Rightarrow> l)"

definition ToLower :: "string \<Rightarrow> string" where
  "ToLower s = map lowerASCII s"

text \<open>
  \<open>strings.SplitN(s, " ", 2)\<close>: the text before the first space and the text
  after it, or the whole text alone when it has no space.
\<close>

definition SplitN2 :: "string \<Rightarrow> string list" where
  "SplitN2 s =
     (let a = takeWhile (\<lambda>c. c \<noteq> CHR '' '') s; b = dropWhile (\<lambda>c. c \<noteq> CHR '' '') s
      in case b of [] \<Rightarrow> [s] | _ # rest \<Rightarrow> [a, rest])"

text \<open>\<open>%v\<close> never has to be rendered: an error keeps the values it was built from.\<close>

section \<open>Configuration (package oidc)\<close>

record Config =
  IssuerURL :: string
  Audience :: string
  AllowedGroups :: "string list"

text \<open>The loop of \<open>LoadConfigFromEnv\<close> over the comma-separated groups.\<close>

fun appendGroups :: "string list \<Rightarrow> string list \<Rightarrow> string list" where
  "appendGroups acc [] = acc"
| "appendGroups acc (grp # groups) =
     (let trimmed = TrimSpace grp
      in if trimmed \<noteq> [] then appendGroups (acc @ [trimmed]) groups
         else appendGroups acc groups)"

definition LoadConfigFromEnv :: "environ \<Rightarrow> Config" where
  "LoadConfigFromEnv env =
     (let allowedGroupsStr = Getenv env ''OIDC_ALLOWED_GROUPS''
      in \<lparr> IssuerURL = Getenv env ''OIDC_ISSUER_URL'',
           Audience = Getenv env ''OIDC_AUDIENCE'',
           AllowedGroups =
             (if allowedGroupsStr \<noteq> [] then appendGroups [] (Split CHR '','' allowedGroupsStr)
              else []) \<rparr>)"

section \<open>Tokens, the key store and the jwt library\<close>

text \<open>
  The concrete \<open>jwt.SigningMethod\<close> types of the jwt library. \<open>getKeyFunc\<close> asserts
  the type \<open>*jwt.SigningMethodRSA\<close>, which the RSA-PSS method is not.
\<close>

datatype SigningMethod =
    SigningMethodHMAC
  | SigningMethodRSA
  | SigningMethodRSAPSS
  | SigningMethodECDSA
  | SigningMethodEd25519
  | SigningMethodNone

text \<open>The methods with one shared secret, or with no key at all, are not asymmetric.\<close>

fun asymmetric :: "SigningMethod \<Rightarrow> bool" where
  "asymmetric SigningMethodHMAC = False"
| "asymmetric SigningMethodNone = False"
| "asymmetric _ = True"

record Token =
  Raw :: string
  Method :: SigningMethod
  Header :: "string \<rightharpoonup> goval"
  Claims :: MapClaims
  Valid :: bool

text \<open>A \<open>jwkset.JWK\<close> is read through \<open>Key()\<close> only, which may be \<open>nil\<close>.\<close>

datatype 'k JWK = JWK (Key: "'k option")

text \<open>
  The key store (\<open>jwkset.Storage\<close>) holds the current key set, a map from key
  identifier to key. \<open>KeyRead\<close> fails with \<open>ErrKeyNotFound\<close> on an identifier
  the set does not hold, and \<open>jwkset.NewMemoryStorage()\<close> holds no key.
\<close>

type_synonym 'k Storage = "string \<rightharpoonup> 'k JWK"

datatype storeerror = ErrKeyNotFound

datatype keyerror =
    UnexpectedSigningMethod "goval option"
  | MissingKid
  | KeyLookupFailed string storeerror
  | NoPublicKey string

definition KeyRead :: "'k Storage \<Rightarrow> string \<Rightarrow> storeerror + 'k JWK" where
  "KeyRead st kid = (case st kid of None \<Rightarrow> Inl ErrKeyNotFound | Some jwk \<Rightarrow> Inr jwk)"

definition NewMemoryStorage :: "'k Storage" where
  "NewMemoryStorage = Map.empty"

text \<open>
  The jwt library is not part of the repository. Its three stages are parameters:
  decoding a token string (\<open>ParseUnverified\<close>), verifying the signature of a
  decoded token with a key (\<open>Method.Verify\<close>), and its own validation of the
  registered claims. \<open>jwt.Parse\<close> runs them in this order, asking the key
  function of the caller for the key between decoding and verification, and marks
  the token valid when all of them passed.
\<close>

record ('k, 'e) jwtlib =
  ParseUnverified :: "string \<Rightarrow> 'e + Token"
  Verify :: "Token \<Rightarrow> 'k \<Rightarrow> bool"
  Validate :: "MapClaims \<Rightarrow> 'e option"

datatype 'e parseerror =
    Malformed 'e
  | Unverifiable keyerror
  | SignatureInvalid
  | ClaimsInvalid 'e

definition jwt_Parse ::
  "('k, 'e) jwtlib \<Rightarrow> string \<Rightarrow> (Token \<Rightarrow> keyerror + 'k) \<Rightarrow> 'e parseerror + Token" where
  "jwt_Parse lib tokenString keyFunc =
     (case ParseUnverified lib tokenString of
        Inl e \<Rightarrow> Inl (Malformed e)
      | Inr token \<Rightarrow>
          (case keyFunc token of
             Inl e \<Rightarrow> Inl (Unverifiable e)
           | Inr key \<Rightarrow>
               (if \<not> Verify lib token key then Inl SignatureInvalid
                else (case Validate lib (Claims token) of
                        Some e \<Rightarrow> Inl (ClaimsInvalid e)
                      | None \<Rightarrow> Inr (token\<lparr>Valid := True\<rparr>)))))"

section \<open>Errors of the validator\<close>

text \<open>
  Every \<open>errors.New\<close> and \<open>fmt.Errorf\<close> of the validator is a constructor that
  keeps the arguments of its message. \<open>'e\<close> is the error type of the jwt library.
\<close>

datatype 'e verror =
    FailedToParse "'e parseerror"
  | InvalidTokenClaims
  | InvalidIssuer string string
  | InvalidAudienceType
  | InvalidAudience string "string list"
  | MissingOrInvalidExp
  | TokenExpired
  | MissingGroupsClaim
  | InvalidGroupsType
  | GroupNotAllowed "string list" "string list"

section \<open>The claim checks of the validator\<close>

text \<open>The Go runtime as the checks see it: \<open>time.Now().Unix()\<close> and the conversion.\<close>

record runtime =
  unixNow :: int
  convOutOfRange :: int

text \<open>\<open>verifyIssuer\<close>: a failed type assertion leaves \<open>issuer\<close> empty.\<close>

definition verifyIssuer :: "Config \<Rightarrow> MapClaims \<Rightarrow> 'e verror option" where
  "verifyIssuer cfg mapClaims =
     (case mapClaims ''iss'' of
        Some (VString issuer) \<Rightarrow>
          (if issuer \<noteq> IssuerURL cfg then Some (InvalidIssuer (IssuerURL cfg) issuer) else None)
      | _ \<Rightarrow> Some (InvalidIssuer (IssuerURL cfg) []))"

text \<open>The loop of \<open>extractAudiences\<close> (and of \<open>extractUserGroups\<close>): the strings of a slice.\<close>

fun appendStrings :: "string list \<Rightarrow> goval list \<Rightarrow> string list" where
  "appendStrings acc [] = acc"
| "appendStrings acc (VString s # rest) = appendStrings (acc @ [s]) rest"
| "appendStrings acc (_ # rest) = appendStrings acc rest"

definition extractAudiences :: "MapClaims \<Rightarrow> 'e verror + string list" where
  "extractAudiences mapClaims =
     (case mapClaims ''aud'' of
        Some (VString aud) \<Rightarrow> Inr [aud]
      | Some (VSlice aud) \<Rightarrow> Inr (appendStrings [] aud)
      | _ \<Rightarrow> Inl InvalidAudienceType)"

text \<open>The loop of \<open>verifyAudience\<close>, leaving at the first match.\<close>

fun audienceLoop :: "string \<Rightarrow> string list \<Rightarrow> bool" where
  "audienceLoop expected [] = False"
| "audienceLoop expected (aud # rest) =
     (if aud = expected then True else audienceLoop expected rest)"

definition verifyAudience :: "Config \<Rightarrow> MapClaims \<Rightarrow> 'e verror option" where
  "verifyAudience cfg mapClaims =
     (case extractAudiences mapClaims of
        Inl err \<Rightarrow> Some err
      | Inr audiences \<Rightarrow>
          (if \<not> audienceLoop (Audience cfg) audiences
           then Some (InvalidAudience (Audience cfg) audiences) else None))"

definition verifyExpiration :: "runtime \<Rightarrow> MapClaims \<Rightarrow> 'e verror option" where
  "verifyExpiration rt mapClaims =
     (case mapClaims ''exp'' of
        Some (VFloat64 expv) \<Rightarrow>
          (if unixNow rt > int64_of_float64 (convOutOfRange rt) expv then Some TokenExpired
           else None)
      | _ \<Rightarrow> Some MissingOrInvalidExp)"

definition extractUserGroups :: "MapClaims \<Rightarrow> 'e verror + string list" where
  "extractUserGroups mapClaims =
     (case mapClaims ''groups'' of
        None \<Rightarrow> Inl MissingGroupsClaim
      | Some (VSlice groups) \<Rightarrow> Inr (appendStrings [] groups)
      | Some (VStrings groups) \<Rightarrow> Inr groups
      | Some _ \<Rightarrow> Inl InvalidGroupsType)"

text \<open>The two nested loops of \<open>verifyGroupMembership\<close>.\<close>

fun allowedLoop :: "string \<Rightarrow> string list \<Rightarrow> bool" where
  "allowedLoop userGroup [] = False"
| "allowedLoop userGroup (allowedGroup # rest) =
     (if userGroup = allowedGroup then True else allowedLoop userGroup rest)"

fun groupsLoop :: "string list \<Rightarrow> string list \<Rightarrow> bool" where
  "groupsLoop [] allowed = False"
| "groupsLoop (userGroup # rest) allowed =
     (if allowedLoop userGroup allowed then True else groupsLoop rest allowed)"

definition verifyGroupMembership :: "Config \<Rightarrow> MapClaims \<Rightarrow> 'e verror option" where
  "verifyGroupMembership cfg mapClaims =
     (if length (AllowedGroups cfg) = 0 then None
      else (case extractUserGroups mapClaims of
              Inl err \<Rightarrow> Some err
            | Inr userGroups \<Rightarrow>
                (if \<not> groupsLoop userGroups (AllowedGroups cfg)
                 then Some (GroupNotAllowed userGroups (AllowedGroups cfg)) else None)))"

section \<open>The validator\<close>

record 'k Validator =
  config :: Config
  jwks :: "'k Storage"

text \<open>
  \<open>NewValidator\<close>: \<open>fetch\<close> is \<open>jwkset.NewStorageFromHTTP\<close>, the first download
  of the key set from the URL it is given. The logger is left out.
\<close>

definition NewValidator ::
  "Config \<Rightarrow> (string \<Rightarrow> 'e + 'k Storage) \<Rightarrow> 'k Validator" where
  "NewValidator cfg fetch =
     (let jwksURL = TrimSuffix (IssuerURL cfg) ''/'' @ ''/.well-known/jwks.json''
      in \<lparr> config = cfg,
           jwks = (case fetch jwksURL of Inl err \<Rightarrow> NewMemoryStorage | Inr storage \<Rightarrow> storage) \<rparr>)"

definition getKeyFunc :: "'k Validator \<Rightarrow> Token \<Rightarrow> keyerror + 'k" where
  "getKeyFunc v token =
     (if Method token \<noteq> SigningMethodRSA
      then Inl (UnexpectedSigningMethod (Header token ''alg''))
      else (case Header token ''kid'' of
              Some (VString kid) \<Rightarrow>
                (case KeyRead (jwks v) kid of
                   Inl err \<Rightarrow> Inl (KeyLookupFailed kid err)
                 | Inr jwk \<Rightarrow>
                     (case Key jwk of
                        None \<Rightarrow> Inl (NoPublicKey kid)
                      | Some publicKey \<Rightarrow> Inr publicKey))
            | _ \<Rightarrow> Inl MissingKid))"

text \<open>
  \<open>ValidateToken\<close> returns the pair \<open>(claims, err)\<close> of the source: \<open>claims\<close> is
  \<open>nil\<close> (\<open>None\<close>) until the last line assigns it. \<open>jwt.Parse\<close> always decodes
  into \<open>jwt.MapClaims\<close>, so the type assertion on \<open>token.Claims\<close> holds.
\<close>

definition ValidateToken ::
  "('k, 'e) jwtlib \<Rightarrow> 'k Validator \<Rightarrow> runtime \<Rightarrow> string
     \<Rightarrow> MapClaims option \<times> 'e verror option" where
  "ValidateToken lib v rt tokenString =
     (case jwt_Parse lib tokenString (getKeyFunc v) of
        Inl err \<Rightarrow> (None, Some (FailedToParse err))
      | Inr token \<Rightarrow>
          (if \<not> Valid token then (None, Some InvalidTokenClaims)
           else (case verifyIssuer (config v) (Claims token) of
                   Some err \<Rightarrow> (None, Some err)
                 | None \<Rightarrow>
           (case verifyAudience (config v) (Claims token) of
                   Some err \<Rightarrow> (None, Some err)
                 | None \<Rightarrow>
           (case verifyExpiration rt (Claims token) of
                   Some err \<Rightarrow> (None, Some err)
                 | None \<Rightarrow>
           (case verifyGroupMembership (config v) (Claims token) of
                   Some err \<Rightarrow> (None, Some err)
                 | None \<Rightarrow> (Some (Claims token), None)))))))"

section \<open>The middleware\<close>

text \<open>
  What the handler does to the gin context, in order: the call of the validator,
  the log lines, the values stored in the context, the response that aborts the
  request, and \<open>Next\<close>. The body \<open>gin.H\<close> is a list of fields; the text
  \<open>fmt.Sprintf("invalid token: %v", err)\<close> keeps its error.
\<close>

datatype ctxval = CtxClaims "MapClaims option" | CtxString string

datatype 'e message = Text string | InvalidTokenText "'e verror"

datatype 'e event =
    CallValidateToken string
  | LogWarn "'e verror"
  | AbortWithStatusJSON nat "(string \<times> 'e message) list"
  | CtxSet string ctxval
  | LogDebug
  | Next

definition StatusUnauthorized :: nat where
  "StatusUnauthorized = 401"

text \<open>\<open>ctx.GetHeader\<close>: the value of the header, empty when the request has none.\<close>

definition GetHeader :: "(string \<rightharpoonup> string) \<Rightarrow> string \<Rightarrow> string" where
  "GetHeader headers k = (case headers k of None \<Rightarrow> [] | Some v \<Rightarrow> v)"

definition claimString :: "MapClaims option \<Rightarrow> string \<Rightarrow> string option" where
  "claimString claims k =
     (case claims of
        None \<Rightarrow> None
      | Some c \<Rightarrow> (case c k of Some (VString s) \<Rightarrow> Some s | _ \<Rightarrow> None))"

text \<open>The rest of the handler, from the result of \<open>ValidateToken\<close> on.\<close>

definition afterValidation :: "MapClaims option \<times> 'e verror option \<Rightarrow> 'e event list" where
  "afterValidation result =
     (case result of
        (claims, Some err) \<Rightarrow>
          [LogWarn err,
           AbortWithStatusJSON StatusUnauthorized [(''error'', InvalidTokenText err)]]
      | (claims, None) \<Rightarrow>
          [CtxSet ''oidc_claims'' (CtxClaims claims)]
          @ (case claimString claims ''email'' of
               Some email \<Rightarrow> [CtxSet ''user_email'' (CtxString email)]
             | None \<Rightarrow> [])
          @ (case claimString claims ''sub'' of
               Some sub \<Rightarrow> [CtxSet ''user_id'' (CtxString sub)]
             | None \<Rightarrow> [])
          @ [LogDebug, Next])"

definition Middleware ::
  "('k, 'e) jwtlib \<Rightarrow> 'k Validator \<Rightarrow> runtime \<Rightarrow> (string \<rightharpoonup> string) \<Rightarrow> 'e event list" where
  "Middleware lib validator rt headers =
     (let authHeader = GetHeader headers ''Authorization''
      in if authHeader = []
         then [AbortWithStatusJSON StatusUnauthorized
                 [(''error'', Text ''missing authorization header'')]]
         else
           (let parts = SplitN2 authHeader
            in if length parts \<noteq> 2 \<or> ToLower (parts ! 0) \<noteq> ''bearer''
               then [AbortWithStatusJSON StatusUnauthorized
                       [(''error'', Text ''invalid authorization header format'')]]
               else
                 (let tokenString = parts ! 1
                  in CallValidateToken tokenString #
                     afterValidation (ValidateToken lib validator rt tokenString))))"

section \<open>The server command\<close>

text \<open>
  The \<open>Run\<close> function of \<open>serverCmd\<close> up to the construction of the validator
  that guards the routes under \<open>/v1\<close>. \<open>log.Fatalf\<close> ends the process: it is the
  result \<open>Inl\<close>. \<open>viper.GetString\<close> after \<open>viper.AutomaticEnv()\<close> reads the
  environment variable; \<open>loggerErr\<close> is the error of \<open>zap.NewProduction()\<close>.
\<close>

datatype 'e fatal = Fatalf string | FatalfLogger 'e

definition serverCmd_Run ::
  "environ \<Rightarrow> 'e option \<Rightarrow> (string \<Rightarrow> 'e + 'k Storage) \<Rightarrow> 'e fatal + 'k Validator" where
  "serverCmd_Run env loggerErr fetch =
     (let oidcConfig = LoadConfigFromEnv env
      in if IssuerURL oidcConfig = []
         then Inl (Fatalf ''OIDC_ISSUER_URL environment variable is required'')
         else if Audience oidcConfig = []
         then Inl (Fatalf ''OIDC_AUDIENCE environment variable is required'')
         else
           (let oidcConfig' =
                  (if length (AllowedGroups oidcConfig) = 0
                   then oidcConfig\<lparr>AllowedGroups := [''engineering'']\<rparr> else oidcConfig);
                cfAPIToken = Getenv env ''CLOUDFLARE_API_TOKEN'';
                cfZoneID = Getenv env ''CLOUDFLARE_ZONE_ID''
            in if cfAPIToken = []
               then Inl (Fatalf ''CLOUDFLARE_API_TOKEN environment variable is required'')
               else if cfZoneID = []
               then Inl (Fatalf ''CLOUDFLARE_ZONE_ID environment variable is required'')
               else (case loggerErr of
                       Some err \<Rightarrow> Inl (FatalfLogger err)
                     | None \<Rightarrow> Inr (NewValidator oidcConfig' fetch))))"

section \<open>The client: token exchange\<close>

text \<open>The cluster configuration of package config.\<close>

record ClusterConfig =
  Environment :: string
  ServerURL :: string

record k8sctlConfig =
  Clusters :: "string \<rightharpoonup> ClusterConfig"
  DefaultEnvironment :: string

definition GetClusterEnvironment :: "k8sctlConfig \<Rightarrow> string \<Rightarrow> string" where
  "GetClusterEnvironment c clusterName =
     (case Clusters c clusterName of
        Some clusterCfg \<Rightarrow> Environment clusterCfg
      | None \<Rightarrow> (if DefaultEnvironment c \<noteq> [] then DefaultEnvironment c else clusterName))"

text \<open>
  The fields of \<open>kubectl.Config\<close> and \<open>kubectl.DexTokenResponse\<close> (library
  kubectl-ssh-oidc) that the client reads or writes.
\<close>

record kubectlConfig =
  Username :: string
  ClientID :: string
  ClientSecret :: string
  DexURL :: string
  DexInstanceID :: string
  TargetAudience :: string
  SSHKeyPaths :: "string list option"

record DexTokenResponse =
  IDToken :: string
  AccessToken :: string

text \<open>The flag variables of package cmd.\<close>

record flags =
  username :: string
  clientID :: string
  clientSecret :: string
  dexURL :: string
  cluster :: string

text \<open>
  What the client finds outside itself: the environment, the configuration
  \<open>kubectl.LoadConfig()\<close> starts from, the outcome of \<open>loadConfig()\<close> (which reads
  files), the signer \<open>kubectl.CreateSSHSignedJWT\<close>, the HTTP round trip to the
  token endpoint and \<open>json.Unmarshal\<close> into a \<open>DexTokenResponse\<close>.
  The \<open>DEBUG\<close> output on standard error is left out.
\<close>

datatype 'e httpresult =
    NewRequestError 'e
  | DoError 'e
  | ReadError 'e
  | Response nat string

record 'e world =
  environment :: environ
  LoadConfig :: kubectlConfig
  loadConfig :: "'e + k8sctlConfig"
  CreateSSHSignedJWT :: "kubectlConfig \<Rightarrow> 'e + string"
  httpPost :: "string \<Rightarrow> (string \<rightharpoonup> string) \<Rightarrow> 'e httpresult"
  jsonUnmarshal :: "string \<Rightarrow> 'e + DexTokenResponse"

datatype 'e xerror =
    CreateRequestFailed 'e
  | ExchangeRequestFailed 'e
  | ReadResponseFailed 'e
  | AuthenticationFailed nat string
  | ParseResponseFailed 'e

datatype 'e cerror =
    CreateJWTFailed 'e
  | ExchangeFailed "'e xerror"
  | NoTokenReceived

definition StatusOK :: nat where
  "StatusOK = 200"

definition getConfigValue :: "environ \<Rightarrow> string \<Rightarrow> string \<Rightarrow> string" where
  "getConfigValue env flagValue envVar =
     (if flagValue \<noteq> [] then flagValue else Getenv env envVar)"

definition getClusterSuffix :: "'e world \<Rightarrow> string \<Rightarrow> string" where
  "getClusterSuffix w clusterName =
     (let envSuffix = Getenv (environment w) ''K8SCTL_CLUSTER_SUFFIX''
      in if envSuffix \<noteq> [] then envSuffix
         else (case loadConfig w of
                 Inr cfg \<Rightarrow> GetClusterEnvironment cfg clusterName
               | Inl err \<Rightarrow> clusterName))"

definition exchangeJWTForOIDC ::
  "'e world \<Rightarrow> kubectlConfig \<Rightarrow> string \<Rightarrow> 'e xerror + DexTokenResponse" where
  "exchangeJWTForOIDC w cfg sshJWT =
     (let baseURL = TrimSuffix (DexURL cfg) ''/'';
          tokenURL = baseURL @ ''/token'';
          formData =
            [''grant_type'' \<mapsto> ''urn:ietf:params:oauth:grant-type:token-exchange'',
             ''subject_token_type'' \<mapsto> ''urn:ietf:params:oauth:token-type:access_token'',
             ''subject_token'' \<mapsto> sshJWT,
             ''requested_token_type'' \<mapsto> ''urn:ietf:params:oauth:token-type:id_token'',
             ''scope'' \<mapsto> ''openid email groups profile'',
             ''connector_id'' \<mapsto> ''ssh'',
             ''client_id'' \<mapsto> ClientID cfg];
          formData1 =
            (if TargetAudience cfg \<noteq> [] then formData(''audience'' \<mapsto> TargetAudience cfg)
             else formData);
          formData2 =
            (if ClientSecret cfg \<noteq> [] then formData1(''client_secret'' \<mapsto> ClientSecret cfg)
             else formData1)
      in case httpPost w tokenURL formData2 of
           NewRequestError err \<Rightarrow> Inl (CreateRequestFailed err)
         | DoError err \<Rightarrow> Inl (ExchangeRequestFailed err)
         | ReadError err \<Rightarrow> Inl (ReadResponseFailed err)
         | Response statusCode respBody \<Rightarrow>
             (if statusCode \<noteq> StatusOK then Inl (AuthenticationFailed statusCode respBody)
              else (case jsonUnmarshal w respBody of
                      Inl unmarshalErr \<Rightarrow> Inl (ParseResponseFailed unmarshalErr)
                    | Inr token \<Rightarrow> Inr token)))"

text \<open>The configuration \<open>getOIDCToken\<close> builds before it signs.\<close>

definition clientConfig :: "'e world \<Rightarrow> flags \<Rightarrow> kubectlConfig" where
  "clientConfig w fl =
     (let env = environment w;
          c0 = LoadConfig w;
          usernameValue = getConfigValue env (username fl) ''KUBECTL_SSH_USER'';
          c1 = (if usernameValue \<noteq> [] then c0\<lparr>Username := usernameValue\<rparr> else c0);
          clientIDValue = getConfigValue env (clientID fl) ''K8SCTL_CLIENT_ID'';
          c2 = (if clientIDValue \<noteq> [] then c1\<lparr>ClientID := clientIDValue\<rparr>
                else c1\<lparr>ClientID := ''dc49b1cda0ee88b545e1f71c7460bf''\<rparr>);
          clientSecretValue = getConfigValue env (clientSecret fl) ''K8SCTL_CLIENT_SECRET'';
          c3 = (if clientSecretValue \<noteq> [] then c2\<lparr>ClientSecret := clientSecretValue\<rparr>
                else c2\<lparr>ClientSecret := ''ecab4d07b4c83e779d9484acdc80e6''\<rparr>);
          dexURLValue = getConfigValue env (dexURL fl) ''DEX_URL'';
          c4 = (if dexURLValue \<noteq> []
                then c3\<lparr>DexURL := dexURLValue, DexInstanceID := dexURLValue\<rparr> else c3);
          envAudience = Getenv env ''K8SCTL_AUDIENCE'';
          targetAudience =
            (if envAudience \<noteq> [] then envAudience
             else if cluster fl \<noteq> []
             then ''https://k8sctl-'' @ getClusterSuffix w (cluster fl) @ ''.example.com''
             else ''https://k8sctl-dev.example.com'')
      in c4\<lparr>TargetAudience := targetAudience, SSHKeyPaths := None\<rparr>)"

text \<open>\<open>getOIDCToken\<close> returns the pair \<open>(token, err)\<close> of the source.\<close>

definition getOIDCToken :: "'e world \<Rightarrow> flags \<Rightarrow> string \<times> 'e cerror option" where
  "getOIDCToken w fl =
     (let cfg = clientConfig w fl
      in case CreateSSHSignedJWT w cfg of
           Inl err \<Rightarrow> ([], Some (CreateJWTFailed err))
         | Inr sshJWT \<Rightarrow>
             (case exchangeJWTForOIDC w cfg sshJWT of
                Inl err \<Rightarrow> ([], Some (ExchangeFailed err))
              | Inr tokenResp \<Rightarrow>
                  (let token = IDToken tokenResp;
                       token' = (if token = [] then AccessToken tokenResp else token)
                   in if token' = [] then (token', Some NoTokenReceived)
                      else (token', None))))"

section \<open>The end-to-end scenario of the specification\<close>

text \<open>
  The data of the scenario: issuer \<open>https://dex.example.com\<close>, audience
  \<open>https://svc.example.com\<close>, allowed groups \<open>["engineering"]\<close>, and a token
  for the subject \<open>alice\<close> that expires ten minutes after the clock reading. The
  library stub decodes one token string and accepts the signature under key
  \<open>42\<close>. Like the default validator of the jwt library, it accepts claims
  without \<open>exp\<close>, and refuses an \<open>exp\<close> that is not a number or that lies before
  the clock reading.
\<close>

definition scenarioConfig :: Config where
  "scenarioConfig =
     \<lparr> IssuerURL = ''https://dex.example.com'',
       Audience = ''https://svc.example.com'',
       AllowedGroups = [''engineering''] \<rparr>"

definition scenarioRuntime :: runtime where
  "scenarioRuntime = \<lparr> unixNow = 1700000000, convOutOfRange = - (2 ^ 63) \<rparr>"

definition scenarioClaims :: MapClaims where
  "scenarioClaims =
     [''iss'' \<mapsto> VString ''https://dex.example.com'',
      ''aud'' \<mapsto> VSlice [VString ''https://other.example.com'', VString ''https://svc.example.com''],
      ''exp'' \<mapsto> VFloat64 1700000600,
      ''sub'' \<mapsto> VString ''alice'',
      ''groups'' \<mapsto> VSlice [VString ''engineering'', VString ''sre'']]"

definition scenarioToken :: "SigningMethod \<Rightarrow> string \<Rightarrow> MapClaims \<Rightarrow> Token" where
  "scenarioToken m alg c =
     \<lparr> Raw = ''header.payload.signature'', Method = m,
       Header = [''alg'' \<mapsto> VString alg, ''kid'' \<mapsto> VString ''key-1''],
       Claims = c, Valid = False \<rparr>"

definition stubLib :: "Token \<Rightarrow> (nat, string) jwtlib" where
  "stubLib tok =
     \<lparr> ParseUnverified = (\<lambda>s. if s = Raw tok then Inr tok else Inl ''token is malformed''),
       Verify = (\<lambda>t k. k = 42),
       Validate =
         (\<lambda>c. case c ''exp'' of
                None \<Rightarrow> None
              | Some (VFloat64 e) \<Rightarrow>
                  (if e < 1700000000 then Some ''token is expired'' else None)
              | Some _ \<Rightarrow> Some ''invalid type for claim: exp is invalid'') \<rparr>"

definition scenarioValidator :: "nat Validator" where
  "scenarioValidator = \<lparr> config = scenarioConfig, jwks = [''key-1'' \<mapsto> JWK (Some 42)] \<rparr>"

text \<open>
  The client side of the scenario: the identity provider at
  \<open>https://dex.example.com/\<close> answers the token request with the given status
  and body, and the body decodes to the given response.
\<close>

definition scenarioFlags :: flags where
  "scenarioFlags =
     \<lparr> username = [], clientID = [], clientSecret = [], dexURL = [], cluster = ''cluster1'' \<rparr>"

definition scenarioWorld :: "nat \<Rightarrow> string \<Rightarrow> DexTokenResponse \<Rightarrow> string world" where
  "scenarioWorld status body decoded =
     \<lparr> environment = [''DEX_URL'' \<mapsto> ''https://dex.example.com/''],
       LoadConfig =
         \<lparr> Username = ''alice'', ClientID = [], ClientSecret = [], DexURL = [],
           DexInstanceID = [], TargetAudience = [], SSHKeyPaths = Some [] \<rparr>,
       loadConfig = Inr \<lparr> Clusters = Map.empty, DefaultEnvironment = ''dev'' \<rparr>,
       CreateSSHSignedJWT =
         (\<lambda>c. if Username c = [] then Inl ''no username'' else Inr ''ssh.signed.jwt''),
       httpPost =
         (\<lambda>url form. if url = ''https://dex.example.com/token'' then Response status body
                     else DoError ''no such host''),
       jsonUnmarshal = (\<lambda>b. if b = body then Inr decoded else Inl ''unexpected end of JSON input'') \<rparr>"

text \<open>The environment of a server that leaves the allowed groups blank.\<close>

definition scenarioEnviron :: environ where
  "scenarioEnviron =
     [''OIDC_ISSUER_URL'' \<mapsto> ''https://dex.example.com'',
      ''OIDC_AUDIENCE'' \<mapsto> ''https://svc.example.com'',
      ''OIDC_ALLOWED_GROUPS'' \<mapsto> '' , '',
      ''CLOUDFLARE_API_TOKEN'' \<mapsto> ''token'',
      ''CLOUDFLARE_ZONE_ID'' \<mapsto> ''zone'']"

section \<open>Properties\<close>

lemma appendStrings_acc: "appendStrings acc vs = acc @ appendStrings [] vs"
proof (induction vs arbitrary: acc)
  case Nil
  show ?case by simp
next
  case (Cons v vs)
  show ?case
  proof (cases v)
    case (VString s)
    have "appendStrings acc (v # vs) = (acc @ [s]) @ appendStrings [] vs"
      using VString Cons.IH [of "acc @ [s]"] by simp
    moreover have "appendStrings [] (v # vs) = [s] @ appendStrings [] vs"
      using VString Cons.IH [of "[s]"] by simp
    ultimately show ?thesis by simp
  qed (use Cons.IH [of acc] in simp_all)
qed

lemmas scenario_defs =
  stubLib_def scenarioToken_def scenarioValidator_def scenarioRuntime_def scenarioClaims_def
  scenarioConfig_def

lemmas validator_defs =
  ValidateToken_def jwt_Parse_def getKeyFunc_def KeyRead_def verifyIssuer_def verifyAudience_def
  extractAudiences_def verifyExpiration_def int64_of_float64_def verifyGroupMembership_def
  extractUserGroups_def

lemma audienceLoop_iff: "audienceLoop expected auds \<longleftrightarrow> expected \<in> set auds"
  by (induction auds) auto

lemma allowedLoop_iff: "allowedLoop userGroup allowed \<longleftrightarrow> userGroup \<in> set allowed"
  by (induction allowed) auto

lemma groupsLoop_iff: "groupsLoop userGroups allowed \<longleftrightarrow> set userGroups \<inter> set allowed \<noteq> {}"
  by (induction userGroups) (auto simp: allowedLoop_iff)

lemma appendStrings_VString: "appendStrings [] (map VString xs) = xs"
proof (induction xs)
  case Nil
  show ?case by simp
next
  case (Cons x xs)
  have "appendStrings [] (map VString (x # xs)) = appendStrings [x] (map VString xs)"
    by simp
  also have "\<dots> = [x] @ appendStrings [] (map VString xs)"
    by (rule appendStrings_acc)
  finally show ?case using Cons.IH by simp
qed

lemma jwt_Parse_Valid: "jwt_Parse lib s kf = Inr tok \<Longrightarrow> Valid tok"
  by (auto simp: jwt_Parse_def split: sum.splits if_splits option.splits)

lemma jwt_Parse_Inr:
  "jwt_Parse lib s kf = Inr tok \<longleftrightarrow>
     (\<exists>t key. ParseUnverified lib s = Inr t \<and> kf t = Inr key \<and> Verify lib t key \<and>
        Validate lib (Claims t) = None \<and> tok = t\<lparr>Valid := True\<rparr>)"
  by (auto simp: jwt_Parse_def split: sum.splits if_splits option.splits)

lemma ValidateToken_parsed:
  assumes "jwt_Parse lib s (getKeyFunc v) = Inr tok"
  shows "ValidateToken lib v rt s =
     (case verifyIssuer (config v) (Claims tok) of
        Some err \<Rightarrow> (None, Some err)
      | None \<Rightarrow>
     (case verifyAudience (config v) (Claims tok) of
        Some err \<Rightarrow> (None, Some err)
      | None \<Rightarrow>
     (case verifyExpiration rt (Claims tok) of
        Some err \<Rightarrow> (None, Some err)
      | None \<Rightarrow>
     (case verifyGroupMembership (config v) (Claims tok) of
        Some err \<Rightarrow> (None, Some err)
      | None \<Rightarrow> (Some (Claims tok), None)))))"
  using assms jwt_Parse_Valid [OF assms] by (simp add: ValidateToken_def)

lemma verifyAudience_strings:
  assumes "mapClaims ''aud'' = Some (VString a) \<and> auds = [a]
             \<or> mapClaims ''aud'' = Some (VSlice (map VString auds))"
  shows "verifyAudience cfg mapClaims =
           (if Audience cfg \<in> set auds then None
            else Some (InvalidAudience (Audience cfg) auds))"
  using assms
  by (auto simp: verifyAudience_def extractAudiences_def audienceLoop_iff appendStrings_VString)

subsection \<open>The audience check\<close>

text \<open>
  Claim C1. When the audience claim of a token is one string or a list of strings
  (\<open>auds\<close> are its values), \<open>verifyAudience\<close> succeeds exactly when the
  configured audience is one of them, so a list that holds the configured audience
  beside other values passes. Otherwise it returns the audience-mismatch error, and
  that error is the result of \<open>ValidateToken\<close> for a token that reached the check.
\<close>

theorem audience_membership:
  fixes cfg :: Config and mapClaims :: MapClaims
  assumes aud: "mapClaims ''aud'' = Some (VString a) \<and> auds = [a]
             \<or> mapClaims ''aud'' = Some (VSlice (map VString auds))"
  shows "(verifyAudience cfg mapClaims = (None :: 'e verror option) \<longleftrightarrow> Audience cfg \<in> set auds)
       \<and> (Audience cfg \<notin> set auds \<longrightarrow>
            verifyAudience cfg mapClaims = Some (InvalidAudience (Audience cfg) auds :: 'e verror))
       \<and> (\<forall>(lib :: ('k, 'e) jwtlib) v rt s tok.
             jwt_Parse lib s (getKeyFunc v) = Inr tok \<and> config v = cfg \<and> Claims tok = mapClaims
               \<and> verifyIssuer cfg mapClaims = (None :: 'e verror option)
               \<and> Audience cfg \<notin> set auds
             \<longrightarrow> ValidateToken lib v rt s = (None, Some (InvalidAudience (Audience cfg) auds)))"
proof -
  have gate: "verifyAudience cfg mapClaims =
           (if Audience cfg \<in> set auds then None
            else Some (InvalidAudience (Audience cfg) auds :: 'e verror))"
    using aud by (rule verifyAudience_strings [where mapClaims = mapClaims and a = a])
  have whole: "ValidateToken lib v rt s = (None, Some (InvalidAudience (Audience cfg) auds))"
    if "jwt_Parse lib s (getKeyFunc v) = Inr tok" "config v = cfg" "Claims tok = mapClaims"
       "verifyIssuer cfg mapClaims = (None :: 'e verror option)" "Audience cfg \<notin> set auds"
    for lib :: "('k, 'e) jwtlib" and v rt s tok
    using that gate by (simp add: ValidateToken_parsed [OF that(1)])
  from gate whole show ?thesis by (simp split: if_splits)
qed

theorem audience_membership_witness:
  "verifyAudience scenarioConfig scenarioClaims = (None :: string verror option)
   \<and> ValidateToken (stubLib (scenarioToken SigningMethodRSA ''RS256''
          (scenarioClaims(''aud'' \<mapsto> VSlice (map VString [''https://other.example.com'', ''https://third.example.com'']))))) scenarioValidator scenarioRuntime
        ''header.payload.signature''
     = (None, Some (InvalidAudience ''https://svc.example.com''
          [''https://other.example.com'', ''https://third.example.com'']))"
proof -
  let ?bad = "scenarioClaims(''aud'' \<mapsto>
     VSlice (map VString [''https://other.example.com'', ''https://third.example.com'']))"
  let ?tok = "scenarioToken SigningMethodRSA ''RS256'' ?bad"
  have a1: "scenarioClaims ''aud'' = Some (VString ''x'') \<and>
              [''https://other.example.com'', ''https://svc.example.com''] = [''x'']
          \<or> scenarioClaims ''aud'' = Some (VSlice (map VString
              [''https://other.example.com'', ''https://svc.example.com'']))"
    by (simp add: scenarioClaims_def)
  have a2: "?bad ''aud'' = Some (VString ''x'') \<and>
              [''https://other.example.com'', ''https://third.example.com''] = [''x'']
          \<or> ?bad ''aud'' = Some (VSlice (map VString
              [''https://other.example.com'', ''https://third.example.com'']))"
    by simp
  have p: "jwt_Parse (stubLib ?tok) ''header.payload.signature'' (getKeyFunc scenarioValidator)
             = Inr (?tok\<lparr>Valid := True\<rparr>)"
    by (simp add: scenario_defs jwt_Parse_def getKeyFunc_def KeyRead_def)
  have i: "verifyIssuer scenarioConfig ?bad = (None :: string verror option)"
    by (simp add: scenario_defs verifyIssuer_def)
  from audience_membership [where mapClaims = scenarioClaims and a = "''x''" and cfg = scenarioConfig
      and auds = "[''https://other.example.com'', ''https://svc.example.com'']"
      and ?'e = string and ?'k = nat, OF a1]
  have "verifyAudience scenarioConfig scenarioClaims = (None :: string verror option)"
    by (simp add: scenarioConfig_def)
  moreover
  from audience_membership [where mapClaims = ?bad and a = "''x''" and cfg = scenarioConfig
      and auds = "[''https://other.example.com'', ''https://third.example.com'']"
      and ?'e = string and ?'k = nat, OF a2] p i
  have "ValidateToken (stubLib ?tok) scenarioValidator scenarioRuntime ''header.payload.signature''
     = (None, Some (InvalidAudience ''https://svc.example.com''
          [''https://other.example.com'', ''https://third.example.com'']))"
    by (simp add: scenario_defs)
  ultimately show ?thesis by simp
qed


subsection \<open>The expiration check\<close>

lemma ValidateToken_unparsed:
  "jwt_Parse lib s (getKeyFunc v) = Inl err \<Longrightarrow>
     ValidateToken lib v rt s = (None, Some (FailedToParse err))"
  by (simp add: ValidateToken_def)

lemma jwt_Parse_cases:
  assumes "ParseUnverified lib s = Inr t"
  shows "(\<exists>err. jwt_Parse lib s kf = Inl err) \<or> jwt_Parse lib s kf = Inr (t\<lparr>Valid := True\<rparr>)"
  using assms by (auto simp: jwt_Parse_def split: sum.splits option.splits)

lemma int64_of_float64_of_int:
  "- (2 ^ 63) \<le> n \<Longrightarrow> n < 2 ^ 63 \<Longrightarrow> int64_of_float64 oor (of_int n) = n"
  by (simp add: int64_of_float64_def)

lemma ValidateToken_fails_at_expiration:
  fixes lib :: "('k, 'e) jwtlib"
  assumes dec: "ParseUnverified lib s = Inr t"
    and bad: "verifyExpiration rt (Claims t) = Some (x :: 'e verror)"
  shows "(\<exists>err. ValidateToken lib v rt s = (None, Some err))
       \<and> (jwt_Parse lib s (getKeyFunc v) = Inr (t\<lparr>Valid := True\<rparr>)
            \<and> verifyIssuer (config v) (Claims t) = (None :: 'e verror option)
            \<and> verifyAudience (config v) (Claims t) = (None :: 'e verror option)
          \<longrightarrow> ValidateToken lib v rt s = (None, Some x))"
proof -
  from jwt_Parse_cases [OF dec, of "getKeyFunc v"]
  show ?thesis
  proof
    assume "\<exists>err. jwt_Parse lib s (getKeyFunc v) = Inl err"
    then show ?thesis by (auto simp: ValidateToken_unparsed)
  next
    assume p: "jwt_Parse lib s (getKeyFunc v) = Inr (t\<lparr>Valid := True\<rparr>)"
    show ?thesis
      using bad by (simp add: ValidateToken_parsed [OF p] split: option.splits)
  qed
qed

lemma ValidateToken_library_refuses:
  assumes "ParseUnverified lib s = Inr t" and "getKeyFunc v t = Inr key"
    and "Verify lib t key" and "Validate lib (Claims t) = Some e"
  shows "ValidateToken lib v rt s = (None, Some (FailedToParse (ClaimsInvalid e)))"
  using assms by (simp add: ValidateToken_def jwt_Parse_def)

text \<open>
  Claim C2, as the specification states it, fails: the issuer and the audience are
  checked before the expiration. A token without \<open>exp\<close> that names a foreign issuer
  passes \<open>jwt.Parse\<close> (the library does not require \<open>exp\<close>) and is refused with the
  issuer error, not with the missing-or-invalid-expiration error.
\<close>

theorem expiration_error_counterexample:
  "(scenarioClaims(''iss'' \<mapsto> VString ''https://evil.example.com'', ''exp'' := None)) ''exp''
     = None
   \<and> ValidateToken
         (stubLib (scenarioToken SigningMethodRSA ''RS256''
            (scenarioClaims(''iss'' \<mapsto> VString ''https://evil.example.com'', ''exp'' := None))))
         scenarioValidator scenarioRuntime ''header.payload.signature''
       = (None, Some (InvalidIssuer ''https://dex.example.com'' ''https://evil.example.com''))
   \<and> InvalidIssuer ''https://dex.example.com'' ''https://evil.example.com''
       \<noteq> (MissingOrInvalidExp :: string verror)
   \<and> InvalidIssuer ''https://dex.example.com'' ''https://evil.example.com''
       \<noteq> (TokenExpired :: string verror)"
  by (simp add: scenario_defs validator_defs)

text \<open>
  Claim C2, amended. For a token \<open>t\<close> decoded from the token string:
  \<open>verifyExpiration\<close> returns the missing-or-invalid error when \<open>exp\<close> is absent or
  not a number, and the expired error when it is a number below \<open>time.Now().Unix()\<close>.
  In both cases \<open>ValidateToken\<close> fails whatever the other claims are. It fails with
  that expiration error when \<open>jwt.Parse\<close>, the issuer check and the audience check
  have passed, and with the error of the jwt library, whatever the other claims
  are, when the key was found, the signature verified and the library's own
  validation of the claims refused them (as it does for an expired \<open>exp\<close>). No
  leeway is granted: a whole number of seconds \<open>n\<close> passes the check exactly while
  the clock has not moved beyond \<open>n\<close>.
\<close>

theorem expiration_gate:
  fixes lib :: "('k, 'e) jwtlib"
  assumes dec: "ParseUnverified lib s = Inr t"
    and bad: "(\<forall>e. Claims t ''exp'' \<noteq> Some (VFloat64 e)) \<and> x = MissingOrInvalidExp
            \<or> (\<exists>e. Claims t ''exp'' = Some (VFloat64 e)
                  \<and> unixNow rt > int64_of_float64 (convOutOfRange rt) e) \<and> x = TokenExpired"
  shows "verifyExpiration rt (Claims t) = Some (x :: 'e verror)
       \<and> (\<exists>err. ValidateToken lib v rt s = (None, Some err))
       \<and> (jwt_Parse lib s (getKeyFunc v) = Inr (t\<lparr>Valid := True\<rparr>)
            \<and> verifyIssuer (config v) (Claims t) = (None :: 'e verror option)
            \<and> verifyAudience (config v) (Claims t) = (None :: 'e verror option)
          \<longrightarrow> ValidateToken lib v rt s = (None, Some x))
       \<and> (\<forall>key e. getKeyFunc v t = Inr key \<and> Verify lib t key
              \<and> Validate lib (Claims t) = Some e
          \<longrightarrow> ValidateToken lib v rt s = (None, Some (FailedToParse (ClaimsInvalid e))))
       \<and> (\<forall>n c. - (2 ^ 63) \<le> n \<and> n < 2 ^ 63 \<and> c ''exp'' = Some (VFloat64 (of_int n))
            \<longrightarrow> (verifyExpiration rt c = (None :: 'e verror option) \<longleftrightarrow> unixNow rt \<le> n))"
proof -
  have gate: "verifyExpiration rt (Claims t) = Some x"
    using bad by (auto simp: verifyExpiration_def split: option.splits goval.splits)
  have leeway: "verifyExpiration rt c = (None :: 'e verror option) \<longleftrightarrow> unixNow rt \<le> n"
    if "- (2 ^ 63) \<le> n" "n < 2 ^ 63" "c ''exp'' = Some (VFloat64 (of_int n))" for n c
    using that by (auto simp: verifyExpiration_def int64_of_float64_of_int)
  have refused: "ValidateToken lib v rt s = (None, Some (FailedToParse (ClaimsInvalid e)))"
    if "getKeyFunc v t = Inr key" "Verify lib t key" "Validate lib (Claims t) = Some e"
    for key e
    using dec that by (rule ValidateToken_library_refuses)
  from gate ValidateToken_fails_at_expiration [OF dec gate, of v] leeway refused
  show ?thesis by blast
qed

theorem expiration_gate_witness:
  "ValidateToken
     (stubLib (scenarioToken SigningMethodRSA ''RS256'' (scenarioClaims(''exp'' := None))))
     scenarioValidator scenarioRuntime ''header.payload.signature''
   = (None, Some MissingOrInvalidExp)
   \<and> verifyExpiration scenarioRuntime
       (scenarioClaims(''iss'' \<mapsto> VString ''https://evil.example.com'',
                       ''exp'' \<mapsto> VFloat64 1699999000))
     = Some (TokenExpired :: string verror)
   \<and> ValidateToken
     (stubLib (scenarioToken SigningMethodRSA ''RS256''
        (scenarioClaims(''iss'' \<mapsto> VString ''https://evil.example.com'',
                        ''exp'' \<mapsto> VFloat64 1699999000))))
     scenarioValidator scenarioRuntime ''header.payload.signature''
   = (None, Some (FailedToParse (ClaimsInvalid ''token is expired'')))"
proof -
  let ?old = "scenarioToken SigningMethodRSA ''RS256''
        (scenarioClaims(''iss'' \<mapsto> VString ''https://evil.example.com'',
                        ''exp'' \<mapsto> VFloat64 1699999000))"
  let ?none = "scenarioToken SigningMethodRSA ''RS256'' (scenarioClaims(''exp'' := None))"
  let ?raw = "''header.payload.signature''"
  have d1: "ParseUnverified (stubLib ?old) ?raw = Inr ?old"
    by (simp add: scenario_defs)
  have d2: "ParseUnverified (stubLib ?none) ?raw = Inr ?none"
    by (simp add: scenario_defs)
  have b1: "(\<forall>e. Claims ?old ''exp'' \<noteq> Some (VFloat64 e)) \<and> TokenExpired = MissingOrInvalidExp
            \<or> (\<exists>e. Claims ?old ''exp'' = Some (VFloat64 e)
                  \<and> unixNow scenarioRuntime > int64_of_float64 (convOutOfRange scenarioRuntime) e)
              \<and> (TokenExpired :: string verror) = TokenExpired"
    by (simp add: scenario_defs int64_of_float64_def)
  have b2: "(\<forall>e. Claims ?none ''exp'' \<noteq> Some (VFloat64 e))
              \<and> (MissingOrInvalidExp :: string verror) = MissingOrInvalidExp
            \<or> (\<exists>e. Claims ?none ''exp'' = Some (VFloat64 e)
                  \<and> unixNow scenarioRuntime > int64_of_float64 (convOutOfRange scenarioRuntime) e)
              \<and> MissingOrInvalidExp = TokenExpired"
    by (simp add: scenario_defs)
  have r1: "getKeyFunc scenarioValidator ?old = Inr 42 \<and> Verify (stubLib ?old) ?old 42
          \<and> Validate (stubLib ?old) (Claims ?old) = Some ''token is expired''"
    by (simp add: scenario_defs getKeyFunc_def KeyRead_def)
  have p2: "jwt_Parse (stubLib ?none) ?raw (getKeyFunc scenarioValidator) = Inr (?none\<lparr>Valid := True\<rparr>)"
    by (simp add: scenario_defs jwt_Parse_def getKeyFunc_def KeyRead_def)
  have g2: "verifyIssuer (config scenarioValidator) (Claims ?none) = (None :: string verror option)
          \<and> verifyAudience (config scenarioValidator) (Claims ?none) = (None :: string verror option)"
    by (simp add: scenario_defs verifyIssuer_def verifyAudience_def extractAudiences_def)
  from expiration_gate [OF d2 b2, of scenarioValidator] p2 g2
  have 1: "ValidateToken (stubLib ?none) scenarioValidator scenarioRuntime ?raw
          = (None, Some MissingOrInvalidExp)"
    by blast
  from expiration_gate [OF d1 b1, of scenarioValidator] r1
  have 2: "verifyExpiration scenarioRuntime (Claims ?old) = Some (TokenExpired :: string verror)
     \<and> ValidateToken (stubLib ?old) scenarioValidator scenarioRuntime ?raw
          = (None, Some (FailedToParse (ClaimsInvalid ''token is expired'')))"
    by blast
  from 1 2 show ?thesis by (simp add: scenarioToken_def)
qed

subsection \<open>The group check\<close>

lemma groups_strings:
  assumes "mapClaims ''groups'' = Some (VSlice (map VString gs))
             \<or> mapClaims ''groups'' = Some (VStrings gs)"
  shows "extractUserGroups mapClaims = (Inr gs :: 'e verror + string list)"
  using assms by (auto simp: extractUserGroups_def appendStrings_VString)

text \<open>
  Claim C3. With a non-empty list of allowed groups, \<open>verifyGroupMembership\<close>
  returns the missing-groups error for claims without \<open>groups\<close>; for a list of
  strings it returns the not-allowed error when the list shares no group with the
  allowed ones, and passes otherwise. For a token that reached the check,
  \<open>ValidateToken\<close> returns that error, or the claims when the check passes.
\<close>

theorem group_membership:
  fixes cfg :: Config and mapClaims :: MapClaims
  assumes req: "AllowedGroups cfg \<noteq> []"
  shows "(mapClaims ''groups'' = None \<longrightarrow>
            verifyGroupMembership cfg mapClaims = Some (MissingGroupsClaim :: 'e verror))
       \<and> (mapClaims ''groups'' = Some (VSlice (map VString gs))
              \<or> mapClaims ''groups'' = Some (VStrings gs) \<longrightarrow>
            verifyGroupMembership cfg mapClaims =
              (if set gs \<inter> set (AllowedGroups cfg) = {}
               then Some (GroupNotAllowed gs (AllowedGroups cfg) :: 'e verror) else None))
       \<and> (\<forall>(lib :: ('k, 'e) jwtlib) v rt s tok.
             jwt_Parse lib s (getKeyFunc v) = Inr tok \<and> config v = cfg \<and> Claims tok = mapClaims
               \<and> verifyIssuer cfg mapClaims = (None :: 'e verror option)
               \<and> verifyAudience cfg mapClaims = (None :: 'e verror option)
               \<and> verifyExpiration rt mapClaims = (None :: 'e verror option)
             \<longrightarrow> ValidateToken lib v rt s =
                   (case verifyGroupMembership cfg mapClaims of
                      Some err \<Rightarrow> (None, Some err)
                    | None \<Rightarrow> (Some mapClaims, None)))"
proof -
  have missing: "verifyGroupMembership cfg mapClaims = Some (MissingGroupsClaim :: 'e verror)"
    if "mapClaims ''groups'' = None"
    using req that by (simp add: verifyGroupMembership_def extractUserGroups_def)
  have present: "verifyGroupMembership cfg mapClaims =
              (if set gs \<inter> set (AllowedGroups cfg) = {}
               then Some (GroupNotAllowed gs (AllowedGroups cfg) :: 'e verror) else None)"
    if "mapClaims ''groups'' = Some (VSlice (map VString gs))
          \<or> mapClaims ''groups'' = Some (VStrings gs)"
    using req groups_strings [where mapClaims = mapClaims and gs = gs and ?'e = 'e, OF that]
    by (simp add: verifyGroupMembership_def groupsLoop_iff)
  have whole: "ValidateToken lib v rt s =
                   (case verifyGroupMembership cfg mapClaims of
                      Some err \<Rightarrow> (None, Some err)
                    | None \<Rightarrow> (Some mapClaims, None))"
    if "jwt_Parse lib s (getKeyFunc v) = Inr tok" "config v = cfg" "Claims tok = mapClaims"
       "verifyIssuer cfg mapClaims = (None :: 'e verror option)"
       "verifyAudience cfg mapClaims = (None :: 'e verror option)"
       "verifyExpiration rt mapClaims = (None :: 'e verror option)"
    for lib :: "('k, 'e) jwtlib" and v rt s tok
    using that by (simp add: ValidateToken_parsed [OF that(1)] split: option.splits)
  from missing present whole show ?thesis by blast
qed


theorem group_membership_witness:
  "AllowedGroups scenarioConfig \<noteq> []
   \<and> verifyGroupMembership scenarioConfig (scenarioClaims(''groups'' := None))
       = Some (MissingGroupsClaim :: string verror)
   \<and> verifyGroupMembership scenarioConfig
         (scenarioClaims(''groups'' \<mapsto> VSlice (map VString [''finance''])))
       = Some (GroupNotAllowed [''finance''] [''engineering''] :: string verror)
   \<and> ValidateToken (stubLib (scenarioToken SigningMethodRSA ''RS256'' scenarioClaims))
         scenarioValidator scenarioRuntime ''header.payload.signature''
       = (Some scenarioClaims, None)"
proof -
  let ?tok = "scenarioToken SigningMethodRSA ''RS256'' scenarioClaims"
  let ?raw = "''header.payload.signature''"
  have req: "AllowedGroups scenarioConfig \<noteq> []"
    by (simp add: scenarioConfig_def)
  have some: "scenarioClaims ''groups'' = Some (VSlice (map VString [''engineering'', ''sre'']))"
    by (simp add: scenarioClaims_def)
  have p: "jwt_Parse (stubLib ?tok) ?raw (getKeyFunc scenarioValidator) = Inr (?tok\<lparr>Valid := True\<rparr>)
         \<and> config scenarioValidator = scenarioConfig
         \<and> Claims (?tok\<lparr>Valid := True\<rparr>) = scenarioClaims"
    by (simp add: scenario_defs jwt_Parse_def getKeyFunc_def KeyRead_def)
  have g: "verifyIssuer scenarioConfig scenarioClaims = (None :: string verror option)
         \<and> verifyAudience scenarioConfig scenarioClaims = (None :: string verror option)
         \<and> verifyExpiration scenarioRuntime scenarioClaims = (None :: string verror option)"
    by (simp add: scenario_defs verifyIssuer_def verifyAudience_def extractAudiences_def
        verifyExpiration_def int64_of_float64_def)
  from group_membership [OF req, where mapClaims = "scenarioClaims(''groups'' := None)"
      and ?'e = string and ?'k = nat]
  have 1: "verifyGroupMembership scenarioConfig (scenarioClaims(''groups'' := None))
       = Some (MissingGroupsClaim :: string verror)"
    by simp
  from group_membership [OF req, where ?'e = string and ?'k = nat and gs = "[''finance'']"
      and mapClaims = "scenarioClaims(''groups'' \<mapsto> VSlice (map VString [''finance'']))"]
  have 2: "verifyGroupMembership scenarioConfig
         (scenarioClaims(''groups'' \<mapsto> VSlice (map VString [''finance''])))
       = Some (GroupNotAllowed [''finance''] [''engineering''] :: string verror)"
    by (simp add: scenarioConfig_def)
  from group_membership [OF req, where mapClaims = scenarioClaims and ?'e = string and ?'k = nat
      and gs = "[''engineering'', ''sre'']"] some p g
  have 3: "ValidateToken (stubLib ?tok) scenarioValidator scenarioRuntime ?raw
       = (Some scenarioClaims, None)"
    by (simp add: scenarioConfig_def)
  from req 1 2 3 show ?thesis by simp
qed


subsection \<open>A key store that could not be filled\<close>

lemma NewValidator_failed_fetch:
  fixes fetch :: "string \<Rightarrow> 'e + 'k Storage"
  assumes "fetch (TrimSuffix (IssuerURL cfg) ''/'' @ ''/.well-known/jwks.json'') = Inl err"
  shows "NewValidator cfg fetch = \<lparr> config = cfg, jwks = Map.empty \<rparr>"
  using assms by (simp add: NewValidator_def NewMemoryStorage_def)

lemma getKeyFunc_empty_store:
  "jwks v = Map.empty \<Longrightarrow> \<exists>e. getKeyFunc v tok = Inl e"
  by (auto simp: getKeyFunc_def KeyRead_def split: option.splits goval.splits)

lemma jwt_Parse_keyFunc_fails:
  assumes "\<And>tok. \<exists>e. kf tok = Inl e"
  shows "\<exists>e. jwt_Parse lib s kf = Inl e"
proof (cases "ParseUnverified lib s")
  case (Inl e)
  then show ?thesis by (simp add: jwt_Parse_def)
next
  case (Inr t)
  from assms [of t] obtain e where "kf t = Inl e" ..
  with Inr show ?thesis by (simp add: jwt_Parse_def)
qed

text \<open>
  Claim C4. When the first download of the key set fails, \<open>NewValidator\<close> still
  returns a validator; its key store is the empty memory store, so \<open>KeyRead\<close>
  fails for every key identifier, \<open>getKeyFunc\<close> fails for every token, and
  \<open>ValidateToken\<close> refuses every token string, whatever the jwt library decodes
  and accepts. The store is closed, and stays so as long as it holds no key.
\<close>

theorem failed_fetch_fails_closed:
  fixes fetch :: "string \<Rightarrow> 'e + 'k Storage"
  assumes fail: "fetch (TrimSuffix (IssuerURL cfg) ''/'' @ ''/.well-known/jwks.json'') = Inl err"
  shows "config (NewValidator cfg fetch) = cfg
       \<and> jwks (NewValidator cfg fetch) = Map.empty
       \<and> (\<forall>kid. KeyRead (jwks (NewValidator cfg fetch)) kid = Inl ErrKeyNotFound)
       \<and> (\<forall>tok. \<exists>e. getKeyFunc (NewValidator cfg fetch) tok = Inl e)
       \<and> (\<forall>(lib :: ('k, 'x) jwtlib) rt s.
             \<exists>e. ValidateToken lib (NewValidator cfg fetch) rt s = (None, Some (FailedToParse e)))"
proof -
  let ?v = "NewValidator cfg fetch"
  have v: "?v = \<lparr> config = cfg, jwks = Map.empty \<rparr>"
    by (rule NewValidator_failed_fetch [where fetch = fetch and cfg = cfg and err = err, OF fail])
  have store: "jwks ?v = Map.empty" and cfg: "config ?v = cfg"
    by (simp_all add: v)
  have read: "KeyRead (jwks ?v) kid = Inl ErrKeyNotFound" for kid
    by (simp add: store KeyRead_def)
  have key: "\<exists>e. getKeyFunc ?v tok = Inl e" for tok
    by (rule getKeyFunc_empty_store [OF store])
  have tok: "\<exists>e. ValidateToken lib ?v rt s = (None, Some (FailedToParse e))"
    for lib :: "('k, 'x) jwtlib" and rt s
  proof -
    from jwt_Parse_keyFunc_fails [of "getKeyFunc ?v" lib s] key
    obtain e where "jwt_Parse lib s (getKeyFunc ?v) = Inl e" by blast
    then show ?thesis by (auto simp: ValidateToken_unparsed)
  qed
  from cfg store read key tok show ?thesis by blast
qed

theorem failed_fetch_fails_closed_witness:
  "(\<lambda>url. if url = ''https://dex.example.com/.well-known/jwks.json''
           then Inl ''connection refused'' else Inr [''key-1'' \<mapsto> JWK (Some (42 :: nat))])
      (TrimSuffix (IssuerURL (scenarioConfig\<lparr>IssuerURL := ''https://dex.example.com/''\<rparr>)) ''/''
         @ ''/.well-known/jwks.json'')
     = (Inl ''connection refused'' :: string + nat Storage)
   \<and> jwks (NewValidator (scenarioConfig\<lparr>IssuerURL := ''https://dex.example.com/''\<rparr>)
         (\<lambda>url. if url = ''https://dex.example.com/.well-known/jwks.json''
           then Inl ''connection refused'' else Inr [''key-1'' \<mapsto> JWK (Some (42 :: nat))]))
       = Map.empty
   \<and> (\<exists>e. ValidateToken (stubLib (scenarioToken SigningMethodRSA ''RS256'' scenarioClaims))
         (NewValidator (scenarioConfig\<lparr>IssuerURL := ''https://dex.example.com/''\<rparr>)
           (\<lambda>url. if url = ''https://dex.example.com/.well-known/jwks.json''
             then Inl ''connection refused'' else Inr [''key-1'' \<mapsto> JWK (Some (42 :: nat))]))
         scenarioRuntime ''header.payload.signature''
       = (None, Some (FailedToParse e)))"
proof -
  let ?fetch = "\<lambda>url :: string. if url = ''https://dex.example.com/.well-known/jwks.json''
           then Inl ''connection refused'' else Inr [''key-1'' \<mapsto> JWK (Some (42 :: nat))]"
  let ?cfg = "scenarioConfig\<lparr>IssuerURL := ''https://dex.example.com/''\<rparr>"
  have h: "?fetch (TrimSuffix (IssuerURL ?cfg) ''/'' @ ''/.well-known/jwks.json'')
             = (Inl ''connection refused'' :: string + nat Storage)"
    by (simp add: TrimSuffix_def)
  from h failed_fetch_fails_closed [where fetch = ?fetch and cfg = ?cfg
      and err = "''connection refused''" and ?'x = string, OF h]
  show ?thesis by blast
qed

subsection \<open>All gates or nothing\<close>

text \<open>
  Claim C5. \<open>ValidateToken\<close> returns either an error and no claims, or the claims
  and no error; in the second case the token was decoded, its key was found, its
  signature was verified, the library accepted its claims, and the issuer,
  audience, expiration and group checks all passed. A token that fails to decode,
  or fails any one of the gates, gets the first result.
\<close>

theorem no_partial_result:
  fixes lib :: "('k, 'e) jwtlib"
  shows "((\<exists>err. ValidateToken lib v rt s = (None, Some err))
          \<or> (\<exists>t key. ParseUnverified lib s = Inr t \<and> getKeyFunc v t = Inr key
                \<and> Verify lib t key \<and> Validate lib (Claims t) = None
                \<and> verifyIssuer (config v) (Claims t) = (None :: 'e verror option)
                \<and> verifyAudience (config v) (Claims t) = (None :: 'e verror option)
                \<and> verifyExpiration rt (Claims t) = (None :: 'e verror option)
                \<and> verifyGroupMembership (config v) (Claims t) = (None :: 'e verror option)
                \<and> ValidateToken lib v rt s = (Some (Claims t), None)))
       \<and> (ParseUnverified lib s = Inr t
            \<and> ((\<exists>e. getKeyFunc v t = Inl e)
                 \<or> (\<exists>key. getKeyFunc v t = Inr key \<and> \<not> Verify lib t key)
                 \<or> (\<exists>e. Validate lib (Claims t) = Some e)
                 \<or> (\<exists>e :: 'e verror. verifyIssuer (config v) (Claims t) = Some e)
                 \<or> (\<exists>e :: 'e verror. verifyAudience (config v) (Claims t) = Some e)
                 \<or> (\<exists>e :: 'e verror. verifyExpiration rt (Claims t) = Some e)
                 \<or> (\<exists>e :: 'e verror. verifyGroupMembership (config v) (Claims t) = Some e))
          \<longrightarrow> (\<exists>err. ValidateToken lib v rt s = (None, Some err)))
       \<and> ((\<exists>e. ParseUnverified lib s = Inl e)
          \<longrightarrow> (\<exists>err. ValidateToken lib v rt s = (None, Some err)))"
proof (cases "jwt_Parse lib s (getKeyFunc v)")
  case (Inl e)
  then have "ValidateToken lib v rt s = (None, Some (FailedToParse e))"
    by (rule ValidateToken_unparsed)
  then show ?thesis by simp
next
  case (Inr tok)
  then obtain t0 key0 where t0: "ParseUnverified lib s = Inr t0" "getKeyFunc v t0 = Inr key0"
      "Verify lib t0 key0" "Validate lib (Claims t0) = None" "tok = t0\<lparr>Valid := True\<rparr>"
    by (auto simp: jwt_Parse_Inr)
  have c: "Claims tok = Claims t0" using t0(5) by simp
  note vt = ValidateToken_parsed [OF Inr, of rt, unfolded c]
  show ?thesis
  proof (intro conjI impI)
    show "(\<exists>err. ValidateToken lib v rt s = (None, Some err))
          \<or> (\<exists>t key. ParseUnverified lib s = Inr t \<and> getKeyFunc v t = Inr key
                \<and> Verify lib t key \<and> Validate lib (Claims t) = None
                \<and> verifyIssuer (config v) (Claims t) = (None :: 'e verror option)
                \<and> verifyAudience (config v) (Claims t) = (None :: 'e verror option)
                \<and> verifyExpiration rt (Claims t) = (None :: 'e verror option)
                \<and> verifyGroupMembership (config v) (Claims t) = (None :: 'e verror option)
                \<and> ValidateToken lib v rt s = (Some (Claims t), None))"
      using t0 vt by (auto split: option.splits)
  next
    assume "ParseUnverified lib s = Inr t
            \<and> ((\<exists>e. getKeyFunc v t = Inl e)
                 \<or> (\<exists>key. getKeyFunc v t = Inr key \<and> \<not> Verify lib t key)
                 \<or> (\<exists>e. Validate lib (Claims t) = Some e)
                 \<or> (\<exists>e :: 'e verror. verifyIssuer (config v) (Claims t) = Some e)
                 \<or> (\<exists>e :: 'e verror. verifyAudience (config v) (Claims t) = Some e)
                 \<or> (\<exists>e :: 'e verror. verifyExpiration rt (Claims t) = Some e)
                 \<or> (\<exists>e :: 'e verror. verifyGroupMembership (config v) (Claims t) = Some e))"
    then show "\<exists>err. ValidateToken lib v rt s = (None, Some err)"
      using t0 vt by (auto split: option.splits)
  next
    assume "\<exists>e. ParseUnverified lib s = Inl e"
    then show "\<exists>err. ValidateToken lib v rt s = (None, Some err)"
      using t0 by auto
  qed
qed

theorem no_partial_result_witness:
  "ValidateToken (stubLib (scenarioToken SigningMethodRSA ''RS256'' scenarioClaims))
       scenarioValidator scenarioRuntime ''header.payload.signature''
     = (Some scenarioClaims, None)
   \<and> verifyGroupMembership (config scenarioValidator)
         (scenarioClaims(''groups'' \<mapsto> VSlice [VString ''finance'']))
       = Some (GroupNotAllowed [''finance''] [''engineering''] :: string verror)
   \<and> (\<exists>err. ValidateToken
         (stubLib (scenarioToken SigningMethodRSA ''RS256''
            (scenarioClaims(''groups'' \<mapsto> VSlice [VString ''finance'']))))
         scenarioValidator scenarioRuntime ''header.payload.signature''
       = (None, Some err))"
proof -
  let ?good = "scenarioToken SigningMethodRSA ''RS256'' scenarioClaims"
  let ?fin = "scenarioToken SigningMethodRSA ''RS256''
            (scenarioClaims(''groups'' \<mapsto> VSlice [VString ''finance'']))"
  let ?raw = "''header.payload.signature''"
  have g: "verifyGroupMembership (config scenarioValidator) (Claims ?fin)
       = Some (GroupNotAllowed [''finance''] [''engineering''] :: string verror)"
    by (simp add: scenario_defs verifyGroupMembership_def extractUserGroups_def)
  have d: "ParseUnverified (stubLib ?fin) ?raw = Inr ?fin"
    by (simp add: scenario_defs)
  have ok: "\<nexists>err. ValidateToken (stubLib ?good) scenarioValidator scenarioRuntime ?raw
              = (None, Some err)"
    by (simp add: scenario_defs validator_defs)
  have c: "Claims ?good = scenarioClaims" "ParseUnverified (stubLib ?good) ?raw = Inr ?good"
    by (simp_all add: scenario_defs)
  from no_partial_result [of "stubLib ?good" scenarioValidator scenarioRuntime ?raw ?good] ok c
  have 1: "ValidateToken (stubLib ?good) scenarioValidator scenarioRuntime ?raw
     = (Some scenarioClaims, None)"
    by auto
  from no_partial_result [of "stubLib ?fin" scenarioValidator scenarioRuntime ?raw ?fin] d g
  have 2: "\<exists>err. ValidateToken (stubLib ?fin) scenarioValidator scenarioRuntime ?raw
       = (None, Some err)"
    by blast
  from 1 g 2 show ?thesis by (simp add: scenarioToken_def)
qed

subsection \<open>Signing methods\<close>

text \<open>
  Claim C6. A token whose signing method is not asymmetric (HMAC, or none) is
  refused by \<open>getKeyFunc\<close> with the unexpected-signing-method error, and
  \<open>ValidateToken\<close> returns that error wrapped by the parser. The result is the
  same for every key store, configuration and clock, and for every signature
  verification and claim validation of the library: none of them is consulted.
\<close>

theorem symmetric_method_rejected:
  fixes lib :: "('k, 'e) jwtlib"
  assumes dec: "ParseUnverified lib s = Inr t"
    and sym: "\<not> asymmetric (Method t)"
  shows "getKeyFunc v t = Inl (UnexpectedSigningMethod (Header t ''alg''))
       \<and> ValidateToken lib v rt s
           = (None, Some (FailedToParse (Unverifiable (UnexpectedSigningMethod (Header t ''alg'')))))
       \<and> (\<forall>(lib' :: ('k, 'e) jwtlib) v' rt'.
             ParseUnverified lib' = ParseUnverified lib
             \<longrightarrow> ValidateToken lib' v' rt' s = ValidateToken lib v rt s)"
proof -
  have m: "Method t \<noteq> SigningMethodRSA"
    using sym by (cases "Method t") simp_all
  have k: "getKeyFunc v' t = Inl (UnexpectedSigningMethod (Header t ''alg''))"
    for v' :: "'k Validator"
    using m by (simp add: getKeyFunc_def)
  have r: "ValidateToken lib' v' rt' s
           = (None, Some (FailedToParse (Unverifiable (UnexpectedSigningMethod (Header t ''alg'')))))"
    if "ParseUnverified lib' = ParseUnverified lib"
    for lib' :: "('k, 'e) jwtlib" and v' rt'
    using that dec k [of v'] by (simp add: ValidateToken_def jwt_Parse_def)
  from k [of v] r [of lib v rt] r show ?thesis by simp
qed


theorem symmetric_method_rejected_witness:
  "\<not> asymmetric SigningMethodHMAC
   \<and> ValidateToken (stubLib (scenarioToken SigningMethodHMAC ''HS256'' scenarioClaims))
         scenarioValidator scenarioRuntime ''header.payload.signature''
       = (None, Some (FailedToParse (Unverifiable
            (UnexpectedSigningMethod (Some (VString ''HS256''))))))"
proof -
  let ?t = "scenarioToken SigningMethodHMAC ''HS256'' scenarioClaims"
  have d: "ParseUnverified (stubLib ?t) ''header.payload.signature'' = Inr ?t"
    by (simp add: scenario_defs)
  have m: "\<not> asymmetric (Method ?t)"
    by (simp add: scenarioToken_def)
  from symmetric_method_rejected [OF d m, of scenarioValidator scenarioRuntime]
  show ?thesis by (simp add: scenarioToken_def)
qed


subsection \<open>The header gate of the middleware\<close>

lemma SplitN2_no_space: "CHR '' '' \<notin> set h \<Longrightarrow> SplitN2 h = [h]"
proof -
  assume "CHR '' '' \<notin> set h"
  then have "dropWhile (\<lambda>c. c \<noteq> CHR '' '') h = []"
    by (induction h) auto
  then show ?thesis unfolding SplitN2_def Let_def by (simp only: list.case)
qed

lemma SplitN2_at_space:
  assumes "CHR '' '' \<notin> set a"
  shows "SplitN2 (a @ CHR '' '' # b) = [a, b]"
proof -
  have t: "takeWhile (\<lambda>c. c \<noteq> CHR '' '') (a @ CHR '' '' # b) = a"
    using assms by (induction a) auto
  have d: "dropWhile (\<lambda>c. c \<noteq> CHR '' '') (a @ CHR '' '' # b) = CHR '' '' # b"
    using assms by (induction a) auto
  show ?thesis by (simp add: SplitN2_def t d)
qed

lemma SplitN2_two:
  "SplitN2 h = [a, b] \<longleftrightarrow> h = a @ CHR '' '' # b \<and> CHR '' '' \<notin> set a"
proof
  assume s: "SplitN2 h = [a, b]"
  show "h = a @ CHR '' '' # b \<and> CHR '' '' \<notin> set a"
  proof (cases "dropWhile (\<lambda>c. c \<noteq> CHR '' '') h")
    case Nil
    then have "SplitN2 h = [h]"
      unfolding SplitN2_def Let_def by (simp only: list.case)
    with s show ?thesis by simp
  next
    case (Cons x rest)
    then have "SplitN2 h = [takeWhile (\<lambda>c. c \<noteq> CHR '' '') h, rest]"
      unfolding SplitN2_def Let_def by (simp only: list.case)
    with s have a: "a = takeWhile (\<lambda>c. c \<noteq> CHR '' '') h" and b: "b = rest"
      by simp_all
    from Cons have ne: "dropWhile (\<lambda>c. c \<noteq> CHR '' '') h \<noteq> []" by simp
    from hd_dropWhile [OF ne] Cons have x: "x = CHR '' ''" by simp
    have "h = takeWhile (\<lambda>c. c \<noteq> CHR '' '') h @ dropWhile (\<lambda>c. c \<noteq> CHR '' '') h"
      by simp
    with a b x Cons have h: "h = a @ CHR '' '' # b" by simp
    have "CHR '' '' \<notin> set a"
      unfolding a using set_takeWhileD by fastforce
    with h show ?thesis by simp
  qed
next
  assume "h = a @ CHR '' '' # b \<and> CHR '' '' \<notin> set a"
  then show "SplitN2 h = [a, b]" using SplitN2_at_space by blast
qed

lemma SplitN2_length: "SplitN2 h = [h] \<or> (\<exists>a b. SplitN2 h = [a, b])"
proof (cases "dropWhile (\<lambda>c. c \<noteq> CHR '' '') h")
  case Nil
  then have "SplitN2 h = [h]"
    unfolding SplitN2_def Let_def by (simp only: list.case)
  then show ?thesis by simp
next
  case (Cons x rest)
  then have "SplitN2 h = [takeWhile (\<lambda>c. c \<noteq> CHR '' '') h, rest]"
    unfolding SplitN2_def Let_def by (simp only: list.case)
  then show ?thesis by simp
qed

lemma lowerASCII_space: "lowerASCII c = CHR '' '' \<longleftrightarrow> c = CHR '' ''"
  by (simp add: lowerASCII_def)

lemma ToLower_bearer_no_space: "ToLower s = ''bearer'' \<Longrightarrow> CHR '' '' \<notin> set s"
proof
  assume e: "ToLower s = ''bearer''" and m: "CHR '' '' \<in> set s"
  from m have "lowerASCII CHR '' '' \<in> set (ToLower s)"
    unfolding ToLower_def by (simp add: image_iff) blast
  with e show False by (simp add: lowerASCII_def)
qed

lemma SplitN2_Nil: "SplitN2 [] = [[]]"
  by (simp add: SplitN2_def)

lemma afterValidation_no_call: "CallValidateToken tok \<notin> set (afterValidation r)"
  by (cases r) (auto simp: afterValidation_def split: option.splits)

lemma afterValidation_no_text:
  "AbortWithStatusJSON c [(k, Text reason)] \<notin> set (afterValidation r)"
  by (cases r) (auto simp: afterValidation_def split: option.splits)

lemma Middleware_missing:
  "GetHeader headers ''Authorization'' = [] \<Longrightarrow>
     Middleware lib v rt headers =
       [AbortWithStatusJSON 401 [(''error'', Text ''missing authorization header'')]]"
  by (simp add: Middleware_def StatusUnauthorized_def)

lemma Middleware_malformed:
  assumes "GetHeader headers ''Authorization'' \<noteq> []"
    and "\<And>a b. SplitN2 (GetHeader headers ''Authorization'') = [a, b] \<Longrightarrow> ToLower a \<noteq> ''bearer''"
  shows "Middleware lib v rt headers =
       [AbortWithStatusJSON 401 [(''error'', Text ''invalid authorization header format'')]]"
proof -
  let ?h = "GetHeader headers ''Authorization''"
  from SplitN2_length [of ?h]
  have "length (SplitN2 ?h) \<noteq> 2 \<or> ToLower (SplitN2 ?h ! 0) \<noteq> ''bearer''"
  proof
    assume "SplitN2 ?h = [?h]"
    then show ?thesis by simp
  next
    assume "\<exists>a b. SplitN2 ?h = [a, b]"
    then obtain a b where ab: "SplitN2 ?h = [a, b]" by blast
    with assms(2) [OF ab] show ?thesis by simp
  qed
  with assms(1) show ?thesis
    by (simp add: Middleware_def StatusUnauthorized_def Let_def)
qed

lemma Middleware_bearer:
  assumes "SplitN2 (GetHeader headers ''Authorization'') = [a, b]" and "ToLower a = ''bearer''"
  shows "Middleware lib v rt headers =
           CallValidateToken b # afterValidation (ValidateToken lib v rt b)"
proof -
  have "GetHeader headers ''Authorization'' \<noteq> []"
    using assms(1) SplitN2_Nil by auto
  with assms show ?thesis by (simp add: Middleware_def Let_def)
qed

text \<open>
  Claim C7. A request without an \<open>Authorization\<close> header, and a request whose
  header is not a scheme, one space and a token with the scheme \<open>Bearer\<close>
  (compared without regard to case), is answered with status 401 and the JSON body
  \<open>{"error": reason}\<close>; that response is all the handler does, so the validator is
  not called. \<open>ValidateToken\<close> is called only for a header of that form, with the
  text after the first space, and every header of that form reaches it.
\<close>

theorem header_gate:
  fixes lib :: "('k, 'e) jwtlib"
  shows "(GetHeader headers ''Authorization'' = [] \<longrightarrow>
            Middleware lib v rt headers =
              [AbortWithStatusJSON 401 [(''error'', Text ''missing authorization header'')]])
       \<and> (GetHeader headers ''Authorization'' \<noteq> []
            \<and> (\<forall>scheme token. GetHeader headers ''Authorization'' = scheme @ CHR '' '' # token
                  \<longrightarrow> ToLower scheme \<noteq> ''bearer'')
          \<longrightarrow> Middleware lib v rt headers =
              [AbortWithStatusJSON 401
                 [(''error'', Text ''invalid authorization header format'')]])
       \<and> (\<forall>token. CallValidateToken token \<in> set (Middleware lib v rt headers)
            \<longrightarrow> (\<exists>scheme. GetHeader headers ''Authorization'' = scheme @ CHR '' '' # token
                    \<and> ToLower scheme = ''bearer''))
       \<and> (\<forall>scheme token. GetHeader headers ''Authorization'' = scheme @ CHR '' '' # token
              \<and> ToLower scheme = ''bearer''
            \<longrightarrow> Middleware lib v rt headers
                  = CallValidateToken token # afterValidation (ValidateToken lib v rt token))"
proof -
  let ?h = "GetHeader headers ''Authorization''"
  have bad: "Middleware lib v rt headers =
              [AbortWithStatusJSON 401
                 [(''error'', Text ''invalid authorization header format'')]]"
    if ne: "?h \<noteq> []"
      and no: "\<forall>scheme token. ?h = scheme @ CHR '' '' # token \<longrightarrow> ToLower scheme \<noteq> ''bearer''"
  proof (rule Middleware_malformed [OF ne])
    fix a b assume "SplitN2 ?h = [a, b]"
    then have "?h = a @ CHR '' '' # b" by (simp add: SplitN2_two)
    with no show "ToLower a \<noteq> ''bearer''" by blast
  qed
  have good: "Middleware lib v rt headers
                = CallValidateToken token # afterValidation (ValidateToken lib v rt token)"
    if "?h = scheme @ CHR '' '' # token" "ToLower scheme = ''bearer''" for scheme token
  proof -
    from that have s: "SplitN2 ?h = [scheme, token]"
      by (simp add: SplitN2_two ToLower_bearer_no_space)
    show ?thesis by (rule Middleware_bearer [OF s that(2)])
  qed
  have only: "\<exists>scheme. ?h = scheme @ CHR '' '' # token \<and> ToLower scheme = ''bearer''"
    if call: "CallValidateToken token \<in> set (Middleware lib v rt headers)" for token
  proof (cases "?h = []")
    case True
    with call show ?thesis by (simp add: Middleware_missing)
  next
    case ne: False
    show ?thesis
    proof (cases "\<exists>a b. SplitN2 ?h = [a, b] \<and> ToLower a = ''bearer''")
      case True
      then obtain a b where ab: "SplitN2 ?h = [a, b]" "ToLower a = ''bearer''" by blast
      from call have "token = b"
        by (simp add: Middleware_bearer [OF ab] afterValidation_no_call)
      with ab show ?thesis by (auto simp: SplitN2_two)
    next
      case False
      then have "\<And>a b. SplitN2 ?h = [a, b] \<Longrightarrow> ToLower a \<noteq> ''bearer''" by blast
      from Middleware_malformed [OF ne this, where lib = lib and v = v and rt = rt] call
      show ?thesis by simp
    qed
  qed
  from Middleware_missing [of headers lib v rt] bad good only show ?thesis by blast
qed

theorem header_gate_witness:
  "Middleware (stubLib (scenarioToken SigningMethodRSA ''RS256'' scenarioClaims))
       scenarioValidator scenarioRuntime Map.empty
     = [AbortWithStatusJSON 401 [(''error'', Text ''missing authorization header'')]]
   \<and> Middleware (stubLib (scenarioToken SigningMethodRSA ''RS256'' scenarioClaims))
       scenarioValidator scenarioRuntime [''Authorization'' \<mapsto> ''Basic dXNlcjpwdw=='']
     = [AbortWithStatusJSON 401 [(''error'', Text ''invalid authorization header format'')]]
   \<and> Middleware (stubLib (scenarioToken SigningMethodRSA ''RS256'' scenarioClaims))
       scenarioValidator scenarioRuntime [''Authorization'' \<mapsto> ''Bearer'']
     = [AbortWithStatusJSON 401 [(''error'', Text ''invalid authorization header format'')]]
   \<and> Middleware (stubLib (scenarioToken SigningMethodRSA ''RS256'' scenarioClaims))
       scenarioValidator scenarioRuntime
       [''Authorization'' \<mapsto> ''Bearer header.payload.signature'']
     = [CallValidateToken ''header.payload.signature'',
        CtxSet ''oidc_claims'' (CtxClaims (Some scenarioClaims)),
        CtxSet ''user_id'' (CtxString ''alice''), LogDebug, Next]"
proof -
  let ?lib = "stubLib (scenarioToken SigningMethodRSA ''RS256'' scenarioClaims)"
  have 1: "GetHeader Map.empty ''Authorization'' = []"
    by (simp add: GetHeader_def)
  have 2: "GetHeader [''Authorization'' \<mapsto> ''Basic dXNlcjpwdw==''] ''Authorization'' \<noteq> []
     \<and> (\<forall>scheme token.
           GetHeader [''Authorization'' \<mapsto> ''Basic dXNlcjpwdw==''] ''Authorization''
             = scheme @ CHR '' '' # token \<longrightarrow> ToLower scheme \<noteq> ''bearer'')"
  proof (intro conjI allI impI)
    show "GetHeader [''Authorization'' \<mapsto> ''Basic dXNlcjpwdw==''] ''Authorization'' \<noteq> []"
      by (simp add: GetHeader_def)
  next
    fix scheme token
    assume h: "GetHeader [''Authorization'' \<mapsto> ''Basic dXNlcjpwdw==''] ''Authorization''
             = scheme @ CHR '' '' # token"
    show "ToLower scheme \<noteq> ''bearer''"
    proof
      assume b: "ToLower scheme = ''bearer''"
      then have "CHR '' '' \<notin> set scheme" by (rule ToLower_bearer_no_space)
      with h have "SplitN2 ''Basic dXNlcjpwdw=='' = [scheme, token]"
        by (simp add: SplitN2_two GetHeader_def)
      then have "scheme = ''Basic''" by (simp add: SplitN2_def)
      with b show False by (simp add: ToLower_def lowerASCII_def)
    qed
  qed
  have 3: "GetHeader [''Authorization'' \<mapsto> ''Bearer''] ''Authorization'' \<noteq> []
     \<and> (\<forall>scheme token.
           GetHeader [''Authorization'' \<mapsto> ''Bearer''] ''Authorization''
             = scheme @ CHR '' '' # token \<longrightarrow> ToLower scheme \<noteq> ''bearer'')"
  proof (intro conjI allI impI)
    show "GetHeader [''Authorization'' \<mapsto> ''Bearer''] ''Authorization'' \<noteq> []"
      by (simp add: GetHeader_def)
  next
    fix scheme token
    assume h: "GetHeader [''Authorization'' \<mapsto> ''Bearer''] ''Authorization''
             = scheme @ CHR '' '' # token"
    then have "''Bearer'' = scheme @ CHR '' '' # token"
      by (simp add: GetHeader_def)
    then have "CHR '' '' \<in> set ''Bearer''"
      by (metis in_set_conv_decomp)
    then show "ToLower scheme \<noteq> ''bearer''" by simp
  qed
  have 4: "GetHeader [''Authorization'' \<mapsto> ''Bearer header.payload.signature''] ''Authorization''
             = ''Bearer'' @ CHR '' '' # ''header.payload.signature''
           \<and> ToLower ''Bearer'' = ''bearer''"
    by (simp add: GetHeader_def ToLower_def lowerASCII_def)
  have ok: "ValidateToken ?lib scenarioValidator scenarioRuntime ''header.payload.signature''
              = (Some scenarioClaims, None)"
    by (simp add: scenario_defs validator_defs)
  have after: "afterValidation (Some scenarioClaims, None :: string verror option)
     = [CtxSet ''oidc_claims'' (CtxClaims (Some scenarioClaims)),
        CtxSet ''user_id'' (CtxString ''alice''), LogDebug, Next]"
    by (simp add: afterValidation_def claimString_def scenarioClaims_def)
  note g = header_gate [where lib = ?lib and v = scenarioValidator and rt = scenarioRuntime]
  from g [of Map.empty] 1
  have a: "Middleware ?lib scenarioValidator scenarioRuntime Map.empty
     = [AbortWithStatusJSON 401 [(''error'', Text ''missing authorization header'')]]"
    by blast
  from g [of "[''Authorization'' \<mapsto> ''Basic dXNlcjpwdw=='']"] 2
  have b: "Middleware ?lib scenarioValidator scenarioRuntime
       [''Authorization'' \<mapsto> ''Basic dXNlcjpwdw=='']
     = [AbortWithStatusJSON 401 [(''error'', Text ''invalid authorization header format'')]]"
    by blast
  from g [of "[''Authorization'' \<mapsto> ''Bearer'']"] 3
  have c: "Middleware ?lib scenarioValidator scenarioRuntime [''Authorization'' \<mapsto> ''Bearer'']
     = [AbortWithStatusJSON 401 [(''error'', Text ''invalid authorization header format'')]]"
    by blast
  from g [of "[''Authorization'' \<mapsto> ''Bearer header.payload.signature'']"] 4
  have "Middleware ?lib scenarioValidator scenarioRuntime
       [''Authorization'' \<mapsto> ''Bearer header.payload.signature'']
     = CallValidateToken ''header.payload.signature''
       # afterValidation (ValidateToken ?lib scenarioValidator scenarioRuntime
            ''header.payload.signature'')"
    by blast
  with ok after
  have d: "Middleware ?lib scenarioValidator scenarioRuntime
       [''Authorization'' \<mapsto> ''Bearer header.payload.signature'']
     = [CallValidateToken ''header.payload.signature'',
        CtxSet ''oidc_claims'' (CtxClaims (Some scenarioClaims)),
        CtxSet ''user_id'' (CtxString ''alice''), LogDebug, Next]"
    by simp
  from a b c d show ?thesis by simp
qed

text \<open>
  Claim C10. When the header splits at its first space into two parts and the
  first part is \<open>bearer\<close> after lowercasing, the handler calls \<open>ValidateToken\<close>
  with the second part, empty or not, and goes on from its result; neither
  response of the header gate is sent.
\<close>

theorem bearer_scheme_case_insensitive:
  fixes lib :: "('k, 'e) jwtlib"
  assumes parts: "SplitN2 (GetHeader headers ''Authorization'') = [p0, p1]"
    and scheme: "ToLower p0 = ''bearer''"
  shows "Middleware lib v rt headers
           = CallValidateToken p1 # afterValidation (ValidateToken lib v rt p1)
       \<and> (\<forall>code reason. AbortWithStatusJSON code [(''error'', Text reason)]
              \<notin> set (Middleware lib v rt headers))"
  by (simp add: Middleware_bearer [OF parts scheme] afterValidation_no_text)

theorem bearer_scheme_case_insensitive_witness:
  "SplitN2 (GetHeader [''Authorization'' \<mapsto> ''BEARER ''] ''Authorization'') = [''BEARER'', []]
   \<and> ToLower ''BEARER'' = ''bearer''
   \<and> Middleware (stubLib (scenarioToken SigningMethodRSA ''RS256'' scenarioClaims))
       scenarioValidator scenarioRuntime [''Authorization'' \<mapsto> ''BEARER '']
     = [CallValidateToken [], LogWarn (FailedToParse (Malformed ''token is malformed'')),
        AbortWithStatusJSON 401
          [(''error'', InvalidTokenText (FailedToParse (Malformed ''token is malformed'')))]]
   \<and> Middleware (stubLib (scenarioToken SigningMethodRSA ''RS256'' scenarioClaims))
       scenarioValidator scenarioRuntime
       [''Authorization'' \<mapsto> ''bearer header.payload.signature'']
     = [CallValidateToken ''header.payload.signature'',
        CtxSet ''oidc_claims'' (CtxClaims (Some scenarioClaims)),
        CtxSet ''user_id'' (CtxString ''alice''), LogDebug, Next]"
proof -
  let ?lib = "stubLib (scenarioToken SigningMethodRSA ''RS256'' scenarioClaims)"
  have s1: "SplitN2 (GetHeader [''Authorization'' \<mapsto> ''BEARER ''] ''Authorization'')
              = [''BEARER'', []]"
    by (simp add: GetHeader_def SplitN2_def)
  have l1: "ToLower ''BEARER'' = ''bearer''"
    by (simp add: ToLower_def lowerASCII_def)
  have s2: "SplitN2 (GetHeader [''Authorization'' \<mapsto> ''bearer header.payload.signature'']
               ''Authorization'') = [''bearer'', ''header.payload.signature'']"
    by (simp add: GetHeader_def SplitN2_def)
  have l2: "ToLower ''bearer'' = ''bearer''"
    by (simp add: ToLower_def lowerASCII_def)
  have e1: "afterValidation (ValidateToken ?lib scenarioValidator scenarioRuntime [])
     = [LogWarn (FailedToParse (Malformed ''token is malformed'')),
        AbortWithStatusJSON 401
          [(''error'', InvalidTokenText (FailedToParse (Malformed ''token is malformed'')))]]"
    by (simp add: afterValidation_def StatusUnauthorized_def ValidateToken_def jwt_Parse_def
        stubLib_def scenarioToken_def)
  have e2: "afterValidation (ValidateToken ?lib scenarioValidator scenarioRuntime
              ''header.payload.signature'')
     = [CtxSet ''oidc_claims'' (CtxClaims (Some scenarioClaims)),
        CtxSet ''user_id'' (CtxString ''alice''), LogDebug, Next]"
  proof -
    have "ValidateToken ?lib scenarioValidator scenarioRuntime ''header.payload.signature''
              = (Some scenarioClaims, None)"
      by (simp add: scenario_defs validator_defs)
    then show ?thesis
      by (simp add: afterValidation_def claimString_def scenarioClaims_def)
  qed
  from bearer_scheme_case_insensitive [OF s1 l1, of ?lib scenarioValidator scenarioRuntime]
    bearer_scheme_case_insensitive [OF s2 l2, of ?lib scenarioValidator scenarioRuntime]
    s1 l1 e1 e2
  show ?thesis by simp
qed


subsection \<open>The token the client keeps\<close>

lemmas client_defs =
  getOIDCToken_def clientConfig_def exchangeJWTForOIDC_def getConfigValue_def
  getClusterSuffix_def GetClusterEnvironment_def Getenv_def TrimSuffix_def StatusOK_def
  scenarioWorld_def scenarioFlags_def

lemma getOIDCToken_exchanged:
  assumes "CreateSSHSignedJWT w (clientConfig w fl) = Inr sshJWT"
    and "exchangeJWTForOIDC w (clientConfig w fl) sshJWT = Inr resp"
  shows "getOIDCToken w fl =
           (if IDToken resp \<noteq> [] then (IDToken resp, None)
            else if AccessToken resp \<noteq> [] then (AccessToken resp, None)
            else ([], Some NoTokenReceived))"
  using assms by (simp add: getOIDCToken_def Let_def)

lemma scenario_exchange:
  "CreateSSHSignedJWT (scenarioWorld 200 body resp)
       (clientConfig (scenarioWorld 200 body resp) scenarioFlags) = Inr ''ssh.signed.jwt''
   \<and> exchangeJWTForOIDC (scenarioWorld 200 body resp)
       (clientConfig (scenarioWorld 200 body resp) scenarioFlags) ''ssh.signed.jwt'' = Inr resp"
  by (simp add: client_defs Let_def)

text \<open>
  Claim C8. When the assertion was signed and the exchange returned a response,
  \<open>getOIDCToken\<close> returns the identity token of the response if it is not empty,
  otherwise its access token if that is not empty, and otherwise fails with the
  no-token-received error; it fails with that error exactly when both fields are
  empty.
\<close>

theorem token_selection:
  fixes w :: "'e world"
  assumes sign: "CreateSSHSignedJWT w (clientConfig w fl) = Inr sshJWT"
    and exch: "exchangeJWTForOIDC w (clientConfig w fl) sshJWT = Inr resp"
  shows "getOIDCToken w fl =
           (if IDToken resp \<noteq> [] then (IDToken resp, None)
            else if AccessToken resp \<noteq> [] then (AccessToken resp, None)
            else ([], Some NoTokenReceived))
       \<and> (snd (getOIDCToken w fl) = Some NoTokenReceived
            \<longleftrightarrow> IDToken resp = [] \<and> AccessToken resp = [])"
  by (simp add: getOIDCToken_exchanged [OF sign exch])

theorem token_selection_witness:
  "getOIDCToken (scenarioWorld 200 ''{\"id_token\":\"id\",\"access_token\":\"access\"}''
        \<lparr> IDToken = ''id'', AccessToken = ''access'' \<rparr>) scenarioFlags
     = (''id'', None)
   \<and> getOIDCToken (scenarioWorld 200 ''{\"access_token\":\"access\"}''
        \<lparr> IDToken = [], AccessToken = ''access'' \<rparr>) scenarioFlags
     = (''access'', None)
   \<and> getOIDCToken (scenarioWorld 200 ''{}'' \<lparr> IDToken = [], AccessToken = [] \<rparr>) scenarioFlags
     = ([], Some NoTokenReceived)"
proof -
  note s = scenario_exchange
  from token_selection [OF s [THEN conjunct1] s [THEN conjunct2],
      of "''{\"id_token\":\"id\",\"access_token\":\"access\"}''"
         "\<lparr> IDToken = ''id'', AccessToken = ''access'' \<rparr>"]
  have 1: "getOIDCToken (scenarioWorld 200 ''{\"id_token\":\"id\",\"access_token\":\"access\"}''
        \<lparr> IDToken = ''id'', AccessToken = ''access'' \<rparr>) scenarioFlags
     = (''id'', None)"
    by simp
  from token_selection [OF s [THEN conjunct1] s [THEN conjunct2],
      of "''{\"access_token\":\"access\"}''" "\<lparr> IDToken = [], AccessToken = ''access'' \<rparr>"]
  have 2: "getOIDCToken (scenarioWorld 200 ''{\"access_token\":\"access\"}''
        \<lparr> IDToken = [], AccessToken = ''access'' \<rparr>) scenarioFlags
     = (''access'', None)"
    by simp
  from token_selection [OF s [THEN conjunct1] s [THEN conjunct2],
      of "''{}''" "\<lparr> IDToken = [], AccessToken = [] \<rparr>"]
  have 3: "getOIDCToken (scenarioWorld 200 ''{}'' \<lparr> IDToken = [], AccessToken = [] \<rparr>)
        scenarioFlags = ([], Some NoTokenReceived)"
    by simp
  from 1 2 3 show ?thesis by simp
qed

subsection \<open>The default group of the server command\<close>

lemma serverCmd_Run_config:
  assumes "serverCmd_Run env loggerErr fetch = Inr v"
  shows "config v =
           (if AllowedGroups (LoadConfigFromEnv env) = []
            then (LoadConfigFromEnv env)\<lparr>AllowedGroups := [''engineering'']\<rparr>
            else LoadConfigFromEnv env)"
  using assms
  by (auto simp: serverCmd_Run_def NewValidator_def Let_def split: if_splits option.splits)

lemma LoadConfigFromEnv_unset:
  "env ''OIDC_ALLOWED_GROUPS'' = None \<Longrightarrow> AllowedGroups (LoadConfigFromEnv env) = []"
  by (simp add: LoadConfigFromEnv_def Getenv_def)

lemma verifyGroupMembership_enforced:
  assumes "AllowedGroups cfg \<noteq> []"
    and "verifyGroupMembership cfg claims = (None :: 'x verror option)"
  shows "\<exists>gs. extractUserGroups claims = (Inr gs :: 'x verror + string list)
              \<and> set gs \<inter> set (AllowedGroups cfg) \<noteq> {}"
  using assms
  by (auto simp: verifyGroupMembership_def groupsLoop_iff split: sum.splits if_splits)

text \<open>
  Claim C9. The validator that the server command constructs has a non-empty list
  of allowed groups: the list read from the environment, or \<open>["engineering"]\<close>
  when the variable is unset or yields no group. Its group check therefore never
  passes by default: it passes only for claims whose groups meet the list.
\<close>

theorem server_default_groups:
  fixes fetch :: "string \<Rightarrow> 'e + 'k Storage"
  assumes run: "serverCmd_Run env loggerErr fetch = Inr v"
  shows "AllowedGroups (config v) \<noteq> []
       \<and> AllowedGroups (config v) =
           (if AllowedGroups (LoadConfigFromEnv env) = [] then [''engineering'']
            else AllowedGroups (LoadConfigFromEnv env))
       \<and> (env ''OIDC_ALLOWED_GROUPS'' = None \<longrightarrow> AllowedGroups (config v) = [''engineering''])
       \<and> (\<forall>claims. verifyGroupMembership (config v) claims = (None :: 'x verror option)
             \<longrightarrow> (\<exists>gs. extractUserGroups claims = (Inr gs :: 'x verror + string list)
                       \<and> set gs \<inter> set (AllowedGroups (config v)) \<noteq> {}))"
proof -
  note c = serverCmd_Run_config [OF run]
  have ne: "AllowedGroups (config v) \<noteq> []"
    by (simp add: c)
  have eq: "AllowedGroups (config v) =
           (if AllowedGroups (LoadConfigFromEnv env) = [] then [''engineering'']
            else AllowedGroups (LoadConfigFromEnv env))"
    by (simp add: c)
  have unset: "AllowedGroups (config v) = [''engineering'']"
    if "env ''OIDC_ALLOWED_GROUPS'' = None"
    using eq that LoadConfigFromEnv_unset [of env] by simp
  have enforced: "\<exists>gs. extractUserGroups claims = (Inr gs :: 'x verror + string list)
                       \<and> set gs \<inter> set (AllowedGroups (config v)) \<noteq> {}"
    if "verifyGroupMembership (config v) claims = (None :: 'x verror option)" for claims
    using ne that by (rule verifyGroupMembership_enforced)
  from ne eq unset enforced show ?thesis by blast
qed

theorem server_default_groups_witness:
  "serverCmd_Run scenarioEnviron None
       (\<lambda>url. Inr [''key-1'' \<mapsto> JWK (Some (42 :: nat))] :: string + nat Storage)
     = Inr scenarioValidator
   \<and> AllowedGroups (LoadConfigFromEnv scenarioEnviron) = []
   \<and> AllowedGroups (config scenarioValidator) = [''engineering'']
   \<and> serverCmd_Run (scenarioEnviron(''OIDC_ALLOWED_GROUPS'' := None)) None
       (\<lambda>url. Inr [''key-1'' \<mapsto> JWK (Some (42 :: nat))] :: string + nat Storage)
     = Inr scenarioValidator"
proof -
  let ?fetch = "\<lambda>url :: string. Inr [''key-1'' \<mapsto> JWK (Some (42 :: nat))] :: string + nat Storage"
  have run: "serverCmd_Run scenarioEnviron None ?fetch = Inr scenarioValidator"
    by (simp add: serverCmd_Run_def NewValidator_def LoadConfigFromEnv_def scenarioEnviron_def
        Getenv_def TrimSpace_def isSpaceASCII_def scenarioValidator_def scenarioConfig_def)
  have run': "serverCmd_Run (scenarioEnviron(''OIDC_ALLOWED_GROUPS'' := None)) None ?fetch
                = Inr scenarioValidator"
    by (simp add: serverCmd_Run_def NewValidator_def LoadConfigFromEnv_def scenarioEnviron_def
        Getenv_def scenarioValidator_def scenarioConfig_def)
  have blank: "AllowedGroups (LoadConfigFromEnv scenarioEnviron) = []"
    by (simp add: LoadConfigFromEnv_def scenarioEnviron_def Getenv_def TrimSpace_def
        isSpaceASCII_def)
  from server_default_groups [OF run, where ?'x = string] blank
  have "AllowedGroups (config scenarioValidator) = [''engineering'']"
    by simp
  with run run' blank show ?thesis by simp
qed


end
